theory Spec2Isabelle
  imports Complex_Main
begin

section \<open>JavaScript numbers\<close>

text \<open>
  A JavaScript number is a finite value, one of the two infinities, or NaN. Finite values
  are kept as reals and finite arithmetic is exact: rounding, overflow to an infinity,
  underflow and the sign of zero are not part of this model. The operations below are
  the ones the sources use, with the special cases of the language written out.
\<close>

datatype number = NaN | NegInfinity | Fin real | Infinity

fun isNaN :: "number \<Rightarrow> bool" where
  "isNaN NaN = True"
| "isNaN _ = False"

fun js_neg :: "number \<Rightarrow> number" where
  "js_neg NaN = NaN"
| "js_neg NegInfinity = Infinity"
| "js_neg Infinity = NegInfinity"
| "js_neg (Fin x) = Fin (- x)"

fun js_add :: "number \<Rightarrow> number \<Rightarrow> number" where
  "js_add NaN _ = NaN"
| "js_add _ NaN = NaN"
| "js_add Infinity NegInfinity = NaN"
| "js_add NegInfinity Infinity = NaN"
| "js_add Infinity _ = Infinity"
| "js_add _ Infinity = Infinity"
| "js_add NegInfinity _ = NegInfinity"
| "js_add _ NegInfinity = NegInfinity"
| "js_add (Fin x) (Fin y) = Fin (x + y)"

definition js_sub :: "number \<Rightarrow> number \<Rightarrow> number" where
  "js_sub a b = js_add a (js_neg b)"

text \<open>The sign of a number that is not NaN: \<open>-1\<close>, \<open>0\<close> or \<open>1\<close>.\<close>

fun js_sign :: "number \<Rightarrow> int" where
  "js_sign NaN = 0"
| "js_sign NegInfinity = - 1"
| "js_sign Infinity = 1"
| "js_sign (Fin x) = (if x < 0 then - 1 else if x = 0 then 0 else 1)"

definition signed_infinity :: "int \<Rightarrow> number" where
  "signed_infinity s = (if s < 0 then NegInfinity else Infinity)"

fun js_mul :: "number \<Rightarrow> number \<Rightarrow> number" where
  "js_mul NaN _ = NaN"
| "js_mul _ NaN = NaN"
| "js_mul (Fin x) (Fin y) = Fin (x * y)"
| "js_mul a b =
     (if js_sign a = 0 \<or> js_sign b = 0 then NaN else signed_infinity (js_sign a * js_sign b))"

fun js_div :: "number \<Rightarrow> number \<Rightarrow> number" where
  "js_div NaN _ = NaN"
| "js_div _ NaN = NaN"
| "js_div (Fin x) (Fin y) =
     (if y = 0 then (if x = 0 then NaN else signed_infinity (js_sign (Fin x)))
      else Fin (x / y))"
| "js_div (Fin x) _ = Fin 0"
| "js_div a (Fin y) = signed_infinity (js_sign a * (if y < 0 then - 1 else 1))"
| "js_div _ _ = NaN"

text \<open>The remainder \<open>a % b\<close> takes the sign of the dividend.\<close>

fun js_mod :: "number \<Rightarrow> number \<Rightarrow> number" where
  "js_mod NaN _ = NaN"
| "js_mod _ NaN = NaN"
| "js_mod (Fin x) (Fin y) =
     (if y = 0 then NaN
      else Fin (x - y * of_int (if x / y < 0 then \<lceil>x / y\<rceil> else \<lfloor>x / y\<rfloor>)))"
| "js_mod (Fin x) _ = Fin x"
| "js_mod _ _ = NaN"

fun js_lt :: "number \<Rightarrow> number \<Rightarrow> bool" where
  "js_lt NaN _ = False"
| "js_lt _ NaN = False"
| "js_lt (Fin x) (Fin y) = (x < y)"
| "js_lt NegInfinity b = (b \<noteq> NegInfinity)"
| "js_lt a Infinity = (a \<noteq> Infinity)"
| "js_lt _ _ = False"

definition js_gt :: "number \<Rightarrow> number \<Rightarrow> bool" where
  "js_gt a b = js_lt b a"

text \<open>Strict equality \<open>===\<close> on numbers: NaN equals nothing.\<close>

definition js_eq :: "number \<Rightarrow> number \<Rightarrow> bool" where
  "js_eq a b = (\<not> isNaN a \<and> \<not> isNaN b \<and> a = b)"

definition Math_max :: "number \<Rightarrow> number \<Rightarrow> number" where
  "Math_max a b = (if isNaN a \<or> isNaN b then NaN else if js_lt a b then b else a)"

definition Math_min :: "number \<Rightarrow> number \<Rightarrow> number" where
  "Math_min a b = (if isNaN a \<or> isNaN b then NaN else if js_lt b a then b else a)"

fun Math_floor :: "number \<Rightarrow> number" where
  "Math_floor (Fin x) = Fin (of_int \<lfloor>x\<rfloor>)"
| "Math_floor a = a"

fun Math_log :: "number \<Rightarrow> number" where
  "Math_log (Fin x) = (if x < 0 then NaN else if x = 0 then NegInfinity else Fin (ln x))"
| "Math_log Infinity = Infinity"
| "Math_log _ = NaN"

definition Math_LN10 :: number where
  "Math_LN10 = Fin (ln 10)"

text \<open>\<open>Math.pow(10, y)\<close>, the only power the sources take.\<close>

fun Math_pow10 :: "number \<Rightarrow> number" where
  "Math_pow10 (Fin y) = Fin (10 powr y)"
| "Math_pow10 Infinity = Infinity"
| "Math_pow10 NegInfinity = Fin 0"
| "Math_pow10 NaN = NaN"

section \<open>Decimals for a value\<close>

text \<open>
  \<open>DecimalCount\<close> is \<open>number | null | undefined\<close>: \<open>None\<close> stands for the two absent
  values.
\<close>

type_synonym DecimalCount = "number option"

record DecimalInfo =
  decimals :: DecimalCount
  scaledDecimals :: DecimalCount

text \<open>
  The branch on \<open>norm\<close> (here \<open>nrm\<close>): the step size and the number of decimals after it
  (\<open>++dec\<close> in the special case of 2.5).
\<close>

definition size_and_dec :: "number \<Rightarrow> number \<Rightarrow> number \<times> number" where
  "size_and_dec nrm dec =
     (if js_lt nrm (Fin 1.5) then (Fin 1, dec)
      else if js_lt nrm (Fin 3) then
        (if js_gt nrm (Fin 2.25) then (Fin 2.5, js_add dec (Fin 1)) else (Fin 2, dec))
      else if js_lt nrm (Fin 7.5) then (Fin 5, dec)
      else (Fin 10, dec))"

definition getDecimalsForValue :: "number \<Rightarrow> DecimalCount \<Rightarrow> DecimalInfo" where
  "getDecimalsForValue val decimalOverride =
     (case decimalOverride of
        Some n \<Rightarrow> \<lparr>decimals = Some n, scaledDecimals = None\<rparr>
      | None \<Rightarrow>
          (let dec0 = js_add (js_neg (Math_floor (js_div (Math_log val) Math_LN10))) (Fin 1);
               magn = Math_pow10 (js_neg dec0);
               nrm = js_div val magn;
               (size0, dec1) = size_and_dec nrm dec0;
               size1 = js_mul size0 magn;
               dec2 = (if js_eq (js_mod val (Fin 1)) (Fin 0) then Fin 0 else dec1);
               decs = Math_max (Fin 0) dec2;
               scaled = js_add (js_sub decs (Math_floor (js_div (Math_log size1) Math_LN10)))
                          (Fin 2)
           in \<lparr>decimals = Some decs, scaledDecimals = Some scaled\<rparr>))"

section \<open>Raw field values\<close>

text \<open>
  A raw field value has any type (\<open>value: any\<close>). \<open>JObject\<close> stands for every object
  that is not an array, given by its own properties.
\<close>

datatype jsval =
    JUndefined
  | JNull
  | JBool bool
  | JNumber number
  | JString string
  | JArray "jsval list"
  | JObject "(string \<times> jsval) list"

fun Array_isArray :: "jsval \<Rightarrow> bool" where
  "Array_isArray (JArray _) = True"
| "Array_isArray _ = False"

fun isBoolean :: "jsval \<Rightarrow> bool" where
  "isBoolean (JBool _) = True"
| "isBoolean _ = False"

text \<open>A string is truthy when it is not empty; an absent one is falsy.\<close>

fun truthy :: "string option \<Rightarrow> bool" where
  "truthy None = False"
| "truthy (Some s) = (s \<noteq> [])"

definition startsWith :: "string \<Rightarrow> string \<Rightarrow> bool" where
  "startsWith s p = (take (length p) s = p)"

section \<open>The types of the display pipeline\<close>

text \<open>
  These types are declared in other files of the package (\<open>types/displayValue\<close>,
  \<open>types/dataFrame\<close>, \<open>utils\<close>); the records have the fields that the display
  processor and the gauge read and write. Fields of a record carry a prefix naming the
  record. A field that may be absent is an option.
\<close>

record Threshold =
  th_value :: number
  th_color :: string

record ValueMapping =
  vm_text :: string

record FormattedValue =
  fv_text :: string
  fv_prefix :: "string option"
  fv_suffix :: "string option"

text \<open>
  What the scale calculator returns: the scale/threshold information of a number. Its
  keys are the ones the processor spreads into the display value.
\<close>

record ScaledValue =
  sv_percent :: "number option"
  sv_threshold :: "Threshold option"
  sv_color :: "string option"

record DisplayValue =
  dv_text :: string
  dv_numeric :: number
  dv_prefix :: "string option"
  dv_suffix :: "string option"
  dv_percent :: "number option"
  dv_threshold :: "Threshold option"
  dv_color :: "string option"
  dv_title :: "string option"

text \<open>Only \<open>FieldType.time\<close> is told apart from the other members of the enum.\<close>

datatype FieldType = FieldType_time | FieldType_other string

text \<open>
  The configuration of a field. \<open>cfg_other\<close> holds the fields the display processor
  does not look at; the empty object \<open>{}\<close> has none.
\<close>

record 'x FieldConfig =
  cfg_unit :: "string option"
  cfg_decimals :: DecimalCount
  cfg_mappings :: "'x ValueMapping_scheme list option"
  cfg_noValue :: "string option"
  cfg_other :: "(string \<times> jsval) list"

record 'x Field =
  fld_type :: "FieldType option"
  fld_config :: "'x FieldConfig option"

record ('x, 'f, 't) DisplayProcessorOptions =
  opt_field :: "('x, 'f) Field_scheme option"
  opt_isUtc :: "bool option"
  opt_theme :: "'t option"

type_synonym ValueFormatter =
  "number \<Rightarrow> DecimalCount \<Rightarrow> DecimalCount \<Rightarrow> bool option \<Rightarrow> FormattedValue"

type_synonym DisplayProcessor = "jsval \<Rightarrow> DisplayValue"

text \<open>
  The functions and the constant the display processor imports: lodash's \<open>_.toString\<close>
  and \<open>_.toNumber\<close>, the conversion to a number that the language applies to an
  operand of arithmetic (\<open>ToNumber\<close>), \<open>getValueFormat\<close>, \<open>getMappedValue\<close>,
  \<open>getScaleCalculator\<close> and \<open>DEFAULT_DATE_TIME_FORMAT\<close>. They are parameters of the
  model: every statement below holds whatever they compute. A formatter may read the
  clock (the unit \<open>dateTimeFromNow\<close>); \<open>getValueFormat\<close> here gives the formatters as
  they answer at one instant, the instant at which the processor is called.
\<close>

record ('x, 'f, 't) env =
  lodash_toString :: "jsval \<Rightarrow> string"
  lodash_toNumber :: "jsval \<Rightarrow> number"
  ToNumber :: "jsval \<Rightarrow> number"
  getValueFormat :: "string \<Rightarrow> ValueFormatter"
  getMappedValue :: "'x ValueMapping_scheme list \<Rightarrow> jsval \<Rightarrow> 'x ValueMapping_scheme option"
  getScaleCalculator :: "('x, 'f) Field_scheme \<Rightarrow> 't option \<Rightarrow> number \<Rightarrow> ScaledValue"
  DEFAULT_DATE_TIME_FORMAT :: string

section \<open>Conversion to a number\<close>

definition toNumber :: "('x, 'f, 't) env \<Rightarrow> jsval \<Rightarrow> number" where
  "toNumber env val =
     (case val of
        JNumber n \<Rightarrow> n
      | _ \<Rightarrow>
          if val = JString [] \<or> val = JNull \<or> val = JUndefined \<or> Array_isArray val then NaN
          else (case val of
                  JBool b \<Rightarrow> (if b then Fin 1 else Fin 0)
                | _ \<Rightarrow> lodash_toNumber env val))"

definition toStringProcessor :: "('x, 'f, 't) env \<Rightarrow> DisplayProcessor" where
  "toStringProcessor env val =
     \<lparr>dv_text = lodash_toString env val, dv_numeric = toNumber env val,
      dv_prefix = None, dv_suffix = None,
      dv_percent = None, dv_threshold = None, dv_color = None, dv_title = None\<rparr>"

section \<open>The display processor\<close>

text \<open>
  \<open>timeFormats\<close> is an object literal with three keys. Reading \<open>timeFormats[unit]\<close>
  looks the key up among the object's own properties and then along its prototype chain,
  so the names of the members of \<open>Object.prototype\<close> give a function or an object,
  which is truthy.
\<close>

definition timeFormats :: "(string \<times> bool) list" where
  "timeFormats =
     [(''dateTimeAsIso'', True), (''dateTimeAsUS'', True), (''dateTimeFromNow'', True)]"

definition Object_prototype_names :: "string list" where
  "Object_prototype_names =
     [''constructor'', ''hasOwnProperty'', ''isPrototypeOf'', ''propertyIsEnumerable'',
      ''toLocaleString'', ''toString'', ''valueOf'', ''__proto__'',
      ''__defineGetter__'', ''__defineSetter__'', ''__lookupGetter__'', ''__lookupSetter__'']"

definition timeFormats_lookup :: "string \<Rightarrow> bool" where
  "timeFormats_lookup u =
     (case map_of timeFormats u of
        Some b \<Rightarrow> b
      | None \<Rightarrow> u \<in> set Object_prototype_names)"

text \<open>The empty configuration \<open>{}\<close> that stands in for an absent \<open>field.config\<close>.\<close>

definition emptyConfig :: "'x FieldConfig" where
  "emptyConfig =
     \<lparr>cfg_unit = None, cfg_decimals = None, cfg_mappings = None, cfg_noValue = None,
      cfg_other = []\<rparr>"

text \<open>
  The branch on \<open>field.type === FieldType.time\<close>: the configuration object after it.
  The assignment changes the object \<open>config\<close> refers to.
\<close>

definition timeUnit ::
  "('x, 'f, 't) env \<Rightarrow> FieldType option \<Rightarrow> 'x FieldConfig \<Rightarrow> 'x FieldConfig" where
  "timeUnit env ty config =
     (if ty = Some FieldType_time then
        (if truthy (cfg_unit config) \<and> timeFormats_lookup (the (cfg_unit config)) then config
         else if truthy (cfg_unit config) \<and> startsWith (the (cfg_unit config)) ''time:''
         then config
         else config\<lparr>cfg_unit := Some (''time:'' @ DEFAULT_DATE_TIME_FORMAT env)\<rparr>)
      else config)"

text \<open>\<open>mappings && mappings.length > 0\<close>\<close>

definition hasMappings :: "'x FieldConfig \<Rightarrow> bool" where
  "hasMappings config =
     (case cfg_mappings config of None \<Rightarrow> False | Some ms \<Rightarrow> ms \<noteq> [])"

text \<open>
  The first part of the processor: the text, the number and \<open>shouldFormat\<close> after the
  value mappings have been tried on the raw value.
\<close>

definition mapValue ::
  "('x, 'f, 't) env \<Rightarrow> 'x FieldConfig \<Rightarrow> jsval \<Rightarrow> string \<times> number \<times> bool" where
  "mapValue env config val =
     (let text0 = lodash_toString env val;
          numeric0 = toNumber env val
      in if hasMappings config then
           (case getMappedValue env (the (cfg_mappings config)) val of
              Some mappedValue \<Rightarrow>
                (let v = toNumber env (JString (vm_text mappedValue))
                 in (vm_text mappedValue, if \<not> isNaN v then v else numeric0, False))
            | None \<Rightarrow> (text0, numeric0, True))
         else (text0, numeric0, True))"

text \<open>
  The formatting branch: the text, prefix and suffix of the formatted number, and the
  text replaced when it is mapped in turn. \<open>getDecimalsForValue\<close> is given the raw
  value, which its arithmetic converts to a number.
\<close>

definition formatValue ::
  "('x, 'f, 't) env \<Rightarrow> 'x FieldConfig \<Rightarrow> ValueFormatter \<Rightarrow> bool option \<Rightarrow> jsval \<Rightarrow> number
     \<Rightarrow> string \<times> string option \<times> string option" where
  "formatValue env config formatFunc isUtc val numeric =
     (let di = getDecimalsForValue
                 (case val of JNumber n \<Rightarrow> n | _ \<Rightarrow> ToNumber env val) (cfg_decimals config);
          v = formatFunc numeric (decimals di) (scaledDecimals di) isUtc;
          text1 =
            (if hasMappings config then
               (case getMappedValue env (the (cfg_mappings config)) (JString (fv_text v)) of
                  Some mappedValue \<Rightarrow> vm_text mappedValue
                | None \<Rightarrow> fv_text v)
             else fv_text v)
      in (text1, fv_prefix v, fv_suffix v))"

text \<open>The text when nothing else gave one: \<open>config.noValue\<close> if it is set.\<close>

definition noValueText :: "'x FieldConfig \<Rightarrow> string \<Rightarrow> string" where
  "noValueText config txt =
     (if txt = [] then (if truthy (cfg_noValue config) then the (cfg_noValue config) else [])
      else txt)"

text \<open>
  The text, prefix and suffix when the processor reaches \<open>if (text)\<close>: those of the
  formatting branch if it is taken, the text left by the value mappings otherwise.
\<close>

definition formatted ::
  "('x, 'f, 't) env \<Rightarrow> 'x FieldConfig \<Rightarrow> ValueFormatter \<Rightarrow> bool option \<Rightarrow> jsval
     \<Rightarrow> string \<times> string option \<times> string option" where
  "formatted env config formatFunc isUtc val =
     (let (text0, numeric, shouldFormat) = mapValue env config val
      in if \<not> isNaN numeric \<and> shouldFormat \<and> \<not> isBoolean val
         then formatValue env config formatFunc isUtc val numeric
         else (text0, None, None))"

text \<open>
  The function \<open>getDisplayProcessor\<close> returns, with what it has captured: the
  configuration, the formatter, the scale calculator and \<open>options.isUtc\<close>. The keys
  of \<open>scaleFunc(numeric)\<close> are spread into the display value.
\<close>

definition displayProcessor ::
  "('x, 'f, 't) env \<Rightarrow> 'x FieldConfig \<Rightarrow> ValueFormatter \<Rightarrow> (number \<Rightarrow> ScaledValue)
     \<Rightarrow> bool option \<Rightarrow> DisplayProcessor" where
  "displayProcessor env config formatFunc scaleFunc isUtc val =
     (let (text0, numeric, shouldFormat) = mapValue env config val;
          (text1, prefix, suffix) = formatted env config formatFunc isUtc val
      in if \<not> isNaN numeric \<and> text1 \<noteq> [] then
           (let sc = scaleFunc numeric
            in \<lparr>dv_text = text1, dv_numeric = numeric, dv_prefix = prefix, dv_suffix = suffix,
                dv_percent = sv_percent sc, dv_threshold = sv_threshold sc,
                dv_color = sv_color sc, dv_title = None\<rparr>)
         else
           \<lparr>dv_text = noValueText config text1, dv_numeric = numeric,
            dv_prefix = prefix, dv_suffix = suffix,
            dv_percent = None, dv_threshold = None, dv_color = None, dv_title = None\<rparr>)"

text \<open>
  \<open>_.isEmpty(options)\<close>: the object has no property. A property that is present with
  the value \<open>undefined\<close> is not told apart from an absent one; \<open>!options.field\<close>
  treats both alike.
\<close>

definition isEmpty :: "('x, 'f, 't) DisplayProcessorOptions \<Rightarrow> bool" where
  "isEmpty opts = (opt_field opts = None \<and> opt_isUtc opts = None \<and> opt_theme opts = None)"

text \<open>
  \<open>const config = field.config ?? {}\<close>: the configuration object of the field, or a
  new empty object when the field has none.
\<close>

definition configOf :: "('x, 'f) Field_scheme \<Rightarrow> 'x FieldConfig" where
  "configOf fld = (case fld_config fld of Some c \<Rightarrow> c | None \<Rightarrow> emptyConfig)"

text \<open>
  The caller's field after the branch on the field type. The assignment to
  \<open>config.unit\<close> reaches the field when \<open>config\<close> is the field's own object; the new
  empty object is not part of the field.
\<close>

definition fieldAfter :: "('x, 'f, 't) env \<Rightarrow> ('x, 'f) Field_scheme \<Rightarrow> ('x, 'f) Field_scheme" where
  "fieldAfter env fld =
     (case fld_config fld of
        Some c \<Rightarrow> fld\<lparr>fld_config := Some (timeUnit env (fld_type fld) c)\<rparr>
      | None \<Rightarrow> fld)"

text \<open>
  The configuration the processor works with (\<open>config\<close> after the branch on the field
  type) and its formatter, \<open>getValueFormat(config.unit || 'none')\<close>.
\<close>

definition processorConfig :: "('x, 'f, 't) env \<Rightarrow> ('x, 'f) Field_scheme \<Rightarrow> 'x FieldConfig" where
  "processorConfig env fld = timeUnit env (fld_type fld) (configOf fld)"

definition processorFormat :: "('x, 'f, 't) env \<Rightarrow> 'x FieldConfig \<Rightarrow> ValueFormatter" where
  "processorFormat env config =
     getValueFormat env (if truthy (cfg_unit config) then the (cfg_unit config) else ''none'')"

text \<open>
  \<open>getDisplayProcessor\<close> returns the processor; the second component is the caller's
  \<open>options\<close> after the call.
\<close>

definition getDisplayProcessor ::
  "('x, 'f, 't) env \<Rightarrow> ('x, 'f, 't) DisplayProcessorOptions option
     \<Rightarrow> DisplayProcessor \<times> ('x, 'f, 't) DisplayProcessorOptions option" where
  "getDisplayProcessor env options =
     (case options of
        None \<Rightarrow> (toStringProcessor env, None)
      | Some opts \<Rightarrow>
          if isEmpty opts \<or> opt_field opts = None then (toStringProcessor env, Some opts)
          else
            (let fld = the (opt_field opts);
                 config = processorConfig env fld;
                 fld1 = fieldAfter env fld;
                 formatFunc = processorFormat env config;
                 scaleFunc = getScaleCalculator env fld1 (opt_theme opts)
             in (displayProcessor env config formatFunc scaleFunc (opt_isUtc opts),
                 Some (opts\<lparr>opt_field := Some fld1\<rparr>))))"

text \<open>
  Calls of the returned processor at different instants. The formatter the processor has
  captured is called anew in every call, and the formatter of a unit such as
  \<open>dateTimeFromNow\<close> reads the clock: \<open>formatters u now\<close> is what the formatter of
  the unit \<open>u\<close> computes when it is called at the instant \<open>now\<close>. The other imports
  are functions of their arguments. \<open>envAt env formatters now\<close> is the imports with the
  formatters as they answer at \<open>now\<close>; building the processor calls \<open>getValueFormat\<close>
  but not the formatter it returns, so \<open>getDisplayProcessor (envAt env formatters now)\<close>
  gives the processor as it answers a call made at \<open>now\<close>.
\<close>

definition envAt ::
  "('x, 'f, 't) env \<Rightarrow> (string \<Rightarrow> 'k \<Rightarrow> ValueFormatter) \<Rightarrow> 'k \<Rightarrow> ('x, 'f, 't) env" where
  "envAt env formatters now = env\<lparr>getValueFormat := (\<lambda>u. formatters u now)\<rparr>"

text \<open>
  The formatter the processor captures, \<open>getValueFormat(config.unit || 'none')\<close>, as a
  function of the instant at which it is called.
\<close>

definition capturedFormat ::
  "(string \<Rightarrow> 'k \<Rightarrow> ValueFormatter) \<Rightarrow> 'x FieldConfig \<Rightarrow> 'k \<Rightarrow> ValueFormatter" where
  "capturedFormat formatters config =
     formatters (if truthy (cfg_unit config) then the (cfg_unit config) else ''none'')"

text \<open>
  A call of the returned processor at the instant \<open>now\<close>, with the configuration object
  it has captured as the state: the body assigns to its own local variables only, so the
  object is handed back as it was.
\<close>

definition callProcessor ::
  "('x, 'f, 't) env \<Rightarrow> ('k \<Rightarrow> ValueFormatter) \<Rightarrow> (number \<Rightarrow> ScaledValue) \<Rightarrow> bool option \<Rightarrow> jsval
     \<Rightarrow> 'k \<Rightarrow> 'x FieldConfig \<Rightarrow> DisplayValue \<times> 'x FieldConfig" where
  "callProcessor env formatFunc scaleFunc isUtc val now config =
     (displayProcessor env config (formatFunc now) scaleFunc isUtc val, config)"

text \<open>
  Two calls with the same value, the first at \<open>now1\<close> and the second at \<open>now2\<close>: the
  two display values.
\<close>

definition callTwice ::
  "('x, 'f, 't) env \<Rightarrow> ('k \<Rightarrow> ValueFormatter) \<Rightarrow> (number \<Rightarrow> ScaledValue) \<Rightarrow> bool option \<Rightarrow> jsval
     \<Rightarrow> 'k \<Rightarrow> 'k \<Rightarrow> 'x FieldConfig \<Rightarrow> DisplayValue \<times> DisplayValue" where
  "callTwice env formatFunc scaleFunc isUtc val now1 now2 config =
     (let (d1, config1) = callProcessor env formatFunc scaleFunc isUtc val now1 config;
          (d2, config2) = callProcessor env formatFunc scaleFunc isUtc val now2 config1
      in (d1, d2))"

section \<open>The gauge\<close>

datatype GrafanaThemeType = Light | Dark

record GrafanaTheme =
  theme_type :: GrafanaThemeType
  theme_colors_dark8 :: string
  theme_colors_gray6 :: string
  theme_fontFamily_sansSerif :: string

datatype ScaleMode = ScaleMode_absolute | ScaleMode_other string

record 'a Scale =
  sc_mode :: ScaleMode
  sc_thresholds :: "'a Threshold_scheme list"

record 'a Props =
  p_height :: number
  p_maxValue :: number
  p_minValue :: number
  p_scale :: "'a Scale"
  p_showThresholdMarkers :: bool
  p_showThresholdLabels :: bool
  p_width :: number
  p_value :: DisplayValue
  p_theme :: GrafanaTheme

text \<open>The properties \<open>defaultProps\<close> gives a value to.\<close>

record 'a DefaultProps =
  dp_maxValue :: number
  dp_minValue :: number
  dp_showThresholdMarkers :: bool
  dp_showThresholdLabels :: bool
  dp_scale :: "'a Scale"

definition defaultProps :: "'a DefaultProps" where
  "defaultProps =
     \<lparr>dp_maxValue = Fin 100, dp_minValue = Fin 0, dp_showThresholdMarkers = True,
      dp_showThresholdLabels = False,
      dp_scale = \<lparr>sc_mode = ScaleMode_absolute, sc_thresholds = []\<rparr>\<rparr>"

text \<open>
  The options handed to the charting call. The entries that are literal constants in the
  source (no border colour, shadow, frame and label hidden, margins and cell border 0,
  \<open>show: true\<close>) are the same in every call and are not repeated here; the formatter, a
  function that returns \<open>text\<close>, is kept as that text.
\<close>

record GaugeOptions =
  go_gauge_min :: number
  go_gauge_max :: number
  go_gauge_background_color :: string
  go_gauge_width :: number
  go_threshold_values :: "Threshold list"
  go_threshold_label_show :: bool
  go_threshold_label_margin :: number
  go_threshold_label_font_size :: number
  go_threshold_show :: bool
  go_threshold_width :: number
  go_value_color :: "string option"
  go_value_formatter :: string
  go_value_font_size :: number
  go_value_font_family :: string

record PlotSeries =
  ps_data :: "(number \<times> number) list"
  ps_label :: "string option"

text \<open>What is thrown: the language's \<open>TypeError\<close>, or whatever the charting call throws.\<close>

datatype 'e exception = TypeError | Thrown 'e

text \<open>
  What the gauge imports: \<open>getColorFromHexRgbOrName\<close>, \<open>formattedValueToString\<close>,
  \<open>selectThemeVariant\<close> (given the dark and the light variant) and the charting call
  \<open>$.plot\<close>, which paints the canvas element or throws.
\<close>

record ('c, 'e) gauge_env =
  getColorFromHexRgbOrName :: "string \<Rightarrow> GrafanaThemeType \<Rightarrow> string"
  formattedValueToString :: "DisplayValue \<Rightarrow> string"
  selectThemeVariant :: "string \<times> string \<Rightarrow> GrafanaThemeType \<Rightarrow> string"
  plot :: "'c \<Rightarrow> PlotSeries list \<Rightarrow> GaugeOptions \<Rightarrow> 'e + 'c"

text \<open>
  The state \<open>draw\<close> works on: the canvas element of the component and the console, a
  list of the logged lines, each with the arguments of \<open>console.log\<close>.
\<close>

record ('c, 'e) world =
  canvasElement :: 'c
  console :: "(string \<times> 'e \<times> GaugeOptions \<times> DisplayValue) list"

text \<open>
  \<open>thresholds[thresholds.length - 1]\<close> is \<open>undefined\<close> for the empty array, and reading
  \<open>.color\<close> of it throws a \<open>TypeError\<close>. The elements of the array literal are built
  from left to right.
\<close>

definition getFormattedThresholds ::
  "('c, 'e) gauge_env \<Rightarrow> 'a Props \<Rightarrow> 'e exception + Threshold list" where
  "getFormattedThresholds env props =
     (let thresholds = sc_thresholds (p_scale props);
          lastThreshold =
            (if thresholds = [] then None else Some (thresholds ! (length thresholds - 1)));
          mapped =
            map (\<lambda>(index, threshold).
                   if index = 0 then
                     \<lparr>th_value = p_minValue props,
                      th_color = getColorFromHexRgbOrName env (th_color threshold)
                                   (theme_type (p_theme props))\<rparr>
                   else
                     (let previousThreshold = thresholds ! (index - 1)
                      in \<lparr>th_value = th_value threshold,
                          th_color = getColorFromHexRgbOrName env (th_color previousThreshold)
                                       (theme_type (p_theme props))\<rparr>))
                (enumerate 0 thresholds)
      in case lastThreshold of
           None \<Rightarrow> Inl TypeError
         | Some l \<Rightarrow>
             Inr (mapped @
                  [\<lparr>th_value = p_maxValue props,
                    th_color = getColorFromHexRgbOrName env (th_color l)
                                 (theme_type (p_theme props))\<rparr>]))"

definition FONT_SCALE :: number where
  "FONT_SCALE = Fin 1"

definition getFontScale :: "number \<Rightarrow> number" where
  "getFontScale len =
     (if js_gt len (Fin 12) then js_sub FONT_SCALE (js_div (js_mul len (Fin 5)) (Fin 110))
      else js_sub FONT_SCALE (js_div (js_mul len (Fin 5)) (Fin 101)))"

record GaugeAutoProps =
  titleFontSize :: number
  gaugeHeight :: number
  showLabel :: bool

definition calculateGaugeAutoProps :: "number \<Rightarrow> number \<Rightarrow> string option \<Rightarrow> GaugeAutoProps" where
  "calculateGaugeAutoProps width height title =
     (let showLabel = (title \<noteq> None);
          titleFontSize = Math_min (js_div (js_mul width (Fin 0.15)) (Fin 1.5)) (Fin 20);
          titleHeight = js_mul titleFontSize (Fin 1.5);
          availableHeight = (if showLabel then js_sub height titleHeight else height);
          gaugeHeight = Math_min availableHeight width
      in \<lparr>titleFontSize = titleFontSize, gaugeHeight = gaugeHeight, showLabel = showLabel\<rparr>)"

text \<open>
  The options object of \<open>draw\<close>. Its threshold values come from
  \<open>getFormattedThresholds\<close>, so building it throws when that call does.
  \<open>formattedValueToString\<close> returns a string, so of \<open>text !== null ? ... : 1\<close> only
  the first branch is ever taken.
\<close>

definition drawOptions :: "('c, 'e) gauge_env \<Rightarrow> 'a Props \<Rightarrow> 'e exception + GaugeOptions" where
  "drawOptions env props =
     (let autoProps = calculateGaugeAutoProps (p_width props) (p_height props)
                        (dv_title (p_value props));
          dimension = Math_min (p_width props) (gaugeHeight autoProps);
          backgroundColor =
            selectThemeVariant env
              (theme_colors_dark8 (p_theme props), theme_colors_gray6 (p_theme props))
              (theme_type (p_theme props));
          gaugeWidthReduceRatio = (if p_showThresholdLabels props then Fin 1.5 else Fin 1);
          gaugeWidth = js_div (Math_min (js_div dimension (Fin 5.5)) (Fin 40)) gaugeWidthReduceRatio;
          thresholdMarkersWidth = js_div gaugeWidth (Fin 5);
          txt = formattedValueToString env (p_value props);
          fontSize = js_mul (Math_min (js_div dimension (Fin 4)) (Fin 100))
                       (getFontScale (Fin (real (length txt))));
          thresholdLabelFontSize = js_div fontSize (Fin 2.5)
      in case getFormattedThresholds env props of
           Inl e \<Rightarrow> Inl e
         | Inr values \<Rightarrow>
             Inr \<lparr>go_gauge_min = p_minValue props,
                  go_gauge_max = p_maxValue props,
                  go_gauge_background_color = backgroundColor,
                  go_gauge_width = gaugeWidth,
                  go_threshold_values = values,
                  go_threshold_label_show = p_showThresholdLabels props,
                  go_threshold_label_margin = js_add thresholdMarkersWidth (Fin 1),
                  go_threshold_label_font_size = thresholdLabelFontSize,
                  go_threshold_show = p_showThresholdMarkers props,
                  go_threshold_width = thresholdMarkersWidth,
                  go_value_color = dv_color (p_value props),
                  go_value_formatter = txt,
                  go_value_font_size = fontSize,
                  go_value_font_family = theme_fontFamily_sansSerif (p_theme props)\<rparr>)"

text \<open>
  \<open>draw\<close>: \<open>Inl\<close> is an exception that leaves the method, \<open>Inr\<close> the state after a
  normal return. Only the charting call is inside \<open>try\<close>.
\<close>

definition draw ::
  "('c, 'e) gauge_env \<Rightarrow> 'a Props \<Rightarrow> ('c, 'e) world \<Rightarrow> 'e exception + ('c, 'e) world" where
  "draw env props w =
     (case drawOptions env props of
        Inl e \<Rightarrow> Inl e
      | Inr options \<Rightarrow>
          (let plotSeries =
                 \<lparr>ps_data = [(Fin 0, dv_numeric (p_value props))],
                  ps_label = dv_title (p_value props)\<rparr>
           in case plot env (canvasElement w) [plotSeries] options of
                Inr c \<Rightarrow> Inr (w\<lparr>canvasElement := c\<rparr>)
              | Inl err \<Rightarrow>
                  Inr (w\<lparr>console := console w @
                         [(''Gauge rendering error'', err, options, p_value props)]\<rparr>)))"

section \<open>The raw InfluxQL editor\<close>

datatype ResultFormat = time_series | table | logs

record InfluxQuery =
  q_query :: "string option"
  q_alias :: "string option"
  q_resultFormat :: "ResultFormat option"

text \<open>What a handler of the editor calls, in order.\<close>

datatype 'q editor_call = onChange 'q | onRunQuery

text \<open>
  The blur handler of the text area and of the alias input. \<open>currentQuery\<close> and
  \<open>currentAlias\<close> are the two edited texts the component holds.
\<close>

definition applyDelayedChangesAndRunQuery ::
  "'z InfluxQuery_scheme \<Rightarrow> string option \<Rightarrow> string option \<Rightarrow> 'z InfluxQuery_scheme editor_call list"
  where
  "applyDelayedChangesAndRunQuery query currentQuery currentAlias =
     [onChange (query\<lparr>q_query := currentQuery, q_alias := currentAlias\<rparr>), onRunQuery]"

text \<open>The \<open>onChange\<close> handler of the result-format select; \<open>e_value\<close> is \<open>e.value\<close>.\<close>

definition selectOnChange ::
  "'z InfluxQuery_scheme \<Rightarrow> ResultFormat option \<Rightarrow> 'z InfluxQuery_scheme editor_call list" where
  "selectOnChange query e_value = [onChange (query\<lparr>q_resultFormat := e_value\<rparr>), onRunQuery]"

section \<open>Example inputs\<close>

text \<open>
  Concrete inputs on which the theorems below are evaluated. The imported functions are
  given simple instances: strings of decimal digits are read as numbers, a value mapping
  carries the raw text it applies to, every number is written as \<open>#\<close> with the unit as
  suffix, and the scale calculator colours a number below 3 green and any other red.
\<close>

record ValueMap = ValueMapping +
  vm_value :: string

definition ex_parse :: "string \<Rightarrow> number" where
  "ex_parse s =
     (if s \<noteq> [] \<and> list_all (\<lambda>c. c \<in> set ''0123456789'') s
      then Fin (real (foldl (\<lambda>a c. 10 * a + (of_char c - 48)) 0 s))
      else NaN)"

definition ex_env :: "(unit ValueMap_ext, unit, unit) env" where
  "ex_env =
     \<lparr>lodash_toString = (\<lambda>v. case v of JString s \<Rightarrow> s | _ \<Rightarrow> []),
      lodash_toNumber = (\<lambda>v. case v of JString s \<Rightarrow> ex_parse s | _ \<Rightarrow> NaN),
      ToNumber = (\<lambda>v. case v of JString s \<Rightarrow> ex_parse s | _ \<Rightarrow> NaN),
      getValueFormat =
        (\<lambda>u n d sd utc. \<lparr>fv_text = ''#'', fv_prefix = None, fv_suffix = Some u\<rparr>),
      getMappedValue =
        (\<lambda>ms v. case v of JString s \<Rightarrow> find (\<lambda>m. vm_value m = s) ms | _ \<Rightarrow> None),
      getScaleCalculator =
        (\<lambda>fld th n. \<lparr>sv_percent = None, sv_threshold = None,
                      sv_color = Some (if js_lt n (Fin 3) then ''green'' else ''red'')\<rparr>),
      DEFAULT_DATE_TIME_FORMAT = ''YYYY-MM-DD HH:mm:ss''\<rparr>"

text \<open>A number field whose only value mapping turns the raw text \<open>1\<close> into \<open>5\<close>.\<close>

definition ex_config :: "unit ValueMap_ext FieldConfig" where
  "ex_config = emptyConfig\<lparr>cfg_mappings := Some [\<lparr>vm_text = ''5'', vm_value = ''1''\<rparr>]\<rparr>"

definition ex_field :: "unit ValueMap_ext Field" where
  "ex_field = \<lparr>fld_type = Some (FieldType_other ''number''), fld_config = Some ex_config\<rparr>"

definition ex_options :: "(unit ValueMap_ext, unit, unit) DisplayProcessorOptions" where
  "ex_options = \<lparr>opt_field = Some ex_field, opt_isUtc = None, opt_theme = Some ()\<rparr>"

definition ex_empty_options :: "(unit ValueMap_ext, unit, unit) DisplayProcessorOptions" where
  "ex_empty_options = \<lparr>opt_field = None, opt_isUtc = None, opt_theme = None\<rparr>"

text \<open>A time field without a configuration, and one whose unit is \<open>short\<close>.\<close>

definition ex_time_field :: "unit ValueMap_ext Field" where
  "ex_time_field = \<lparr>fld_type = Some FieldType_time, fld_config = None\<rparr>"

definition ex_time_options :: "(unit ValueMap_ext, unit, unit) DisplayProcessorOptions" where
  "ex_time_options = \<lparr>opt_field = Some ex_time_field, opt_isUtc = None, opt_theme = Some ()\<rparr>"

definition ex_short_field :: "unit ValueMap_ext Field" where
  "ex_short_field =
     \<lparr>fld_type = Some FieldType_time,
      fld_config = Some (emptyConfig\<lparr>cfg_unit := Some ''short''\<rparr>)\<rparr>"

definition ex_short_options :: "(unit ValueMap_ext, unit, unit) DisplayProcessorOptions" where
  "ex_short_options = \<lparr>opt_field = Some ex_short_field, opt_isUtc = None, opt_theme = Some ()\<rparr>"

text \<open>
  Formatters that depend on the instant of the call, in milliseconds: the one of the unit
  \<open>dateTimeFromNow\<close> tells how long before the call the formatted time was; the
  others are those of \<open>ex_env\<close> at every instant. And a time field with that unit.
\<close>

definition ex_formatters :: "string \<Rightarrow> nat \<Rightarrow> ValueFormatter" where
  "ex_formatters u now n d sd utc =
     (if u = ''dateTimeFromNow'' then
        \<lparr>fv_text =
           (case n of
              Fin x \<Rightarrow> (if real now - x < 45000 then ''a few seconds ago'' else ''a minute ago'')
            | _ \<Rightarrow> ''Invalid date''),
         fv_prefix = None, fv_suffix = None\<rparr>
      else getValueFormat ex_env u n d sd utc)"

definition ex_fromNow_field :: "unit ValueMap_ext Field" where
  "ex_fromNow_field =
     \<lparr>fld_type = Some FieldType_time,
      fld_config = Some (emptyConfig\<lparr>cfg_unit := Some ''dateTimeFromNow''\<rparr>)\<rparr>"

definition ex_fromNow_options :: "(unit ValueMap_ext, unit, unit) DisplayProcessorOptions" where
  "ex_fromNow_options =
     \<lparr>opt_field = Some ex_fromNow_field, opt_isUtc = None, opt_theme = Some ()\<rparr>"

text \<open>A gauge with two thresholds, a charting call that always throws, and a query.\<close>

definition ex_theme :: GrafanaTheme where
  "ex_theme =
     \<lparr>theme_type = Dark, theme_colors_dark8 = ''#141619'', theme_colors_gray6 = ''#dde4ed'',
      theme_fontFamily_sansSerif = ''Roboto''\<rparr>"

definition ex_value :: DisplayValue where
  "ex_value =
     \<lparr>dv_text = ''42'', dv_numeric = Fin 42, dv_prefix = None, dv_suffix = None,
      dv_percent = None, dv_threshold = None, dv_color = Some ''green'', dv_title = None\<rparr>"

definition ex_props :: "unit Props" where
  "ex_props =
     \<lparr>p_height = Fin 200, p_maxValue = Fin 100, p_minValue = Fin 0,
      p_scale = \<lparr>sc_mode = ScaleMode_absolute,
                 sc_thresholds = [\<lparr>th_value = NegInfinity, th_color = ''green''\<rparr>,
                                  \<lparr>th_value = Fin 80, th_color = ''red''\<rparr>]\<rparr>,
      p_showThresholdMarkers = True, p_showThresholdLabels = False, p_width = Fin 300,
      p_value = ex_value, p_theme = ex_theme\<rparr>"

definition ex_default_props :: "unit Props" where
  "ex_default_props = ex_props\<lparr>p_scale := dp_scale defaultProps\<rparr>"

definition ex_gauge_env :: "(unit, string) gauge_env" where
  "ex_gauge_env =
     \<lparr>getColorFromHexRgbOrName = (\<lambda>c t. c),
      formattedValueToString = dv_text,
      selectThemeVariant = (\<lambda>(d, l) t. case t of Dark \<Rightarrow> d | Light \<Rightarrow> l),
      plot = (\<lambda>c series options. Inl ''cannot plot'')\<rparr>"

definition ex_world :: "(unit, string) world" where
  "ex_world = \<lparr>canvasElement = (), console = []\<rparr>"

definition ex_query :: InfluxQuery where
  "ex_query =
     \<lparr>q_query = Some ''SELECT 1'', q_alias = None, q_resultFormat = Some time_series\<rparr>"

section \<open>Properties of \<open>getDecimalsForValue\<close>\<close>

lemma size_and_dec_finite: "\<exists>s e. size_and_dec nrm (Fin d) = (s, Fin e)"
  by (simp add: size_and_dec_def)

lemma Math_max_zero_Fin: "Math_max (Fin 0) (Fin x) = Fin (max 0 x)"
  by (simp add: Math_max_def max_def)

lemma decimals_positive_finite:
  assumes "0 < v"
  shows "\<exists>d. decimals (getDecimalsForValue (Fin v) None) = Some (Fin d) \<and> 0 \<le> d
     \<and> (js_eq (js_mod (Fin v) (Fin 1)) (Fin 0) \<longrightarrow> d = 0)"
proof -
  define dec0 :: real where "dec0 = 1 - of_int \<lfloor>ln v / ln 10\<rfloor>"
  have d0: "js_add (js_neg (Math_floor (js_div (Math_log (Fin v)) Math_LN10))) (Fin 1) = Fin dec0"
    using assms by (simp add: Math_LN10_def dec0_def)
  obtain s e where
    se: "size_and_dec (js_div (Fin v) (Math_pow10 (js_neg (Fin dec0)))) (Fin dec0) = (s, Fin e)"
    using size_and_dec_finite by blast
  show ?thesis
    by (simp add: getDecimalsForValue_def d0 se Let_def Math_max_zero_Fin
        del: Math_log.simps Math_floor.simps js_div.simps js_add.simps js_neg.simps
          js_mod.simps Math_pow10.simps)
qed

text \<open>
  C3. When \<open>decimalOverride\<close> is a number, \<open>getDecimalsForValue\<close> returns exactly
  \<open>{decimals: decimalOverride, scaledDecimals: null}\<close>, whatever the value. Without an
  override, for every positive finite value the returned \<open>decimals\<close> is a finite number
  that is at least 0, and it is 0 when the value is an integer (\<open>value % 1 === 0\<close>).
\<close>

theorem getDecimalsForValue_rounding:
  "getDecimalsForValue val (Some n) = \<lparr>decimals = Some n, scaledDecimals = None\<rparr> \<and>
   (0 < v \<longrightarrow>
      (\<exists>d. decimals (getDecimalsForValue (Fin v) None) = Some (Fin d) \<and> 0 \<le> d \<and>
           (js_eq (js_mod (Fin v) (Fin 1)) (Fin 0) \<longrightarrow> d = 0)))"
  using decimals_positive_finite by (simp add: getDecimalsForValue_def)

theorem getDecimalsForValue_rounding_witness:
  "(0::real) < 3 \<and> js_eq (js_mod (Fin 3) (Fin 1)) (Fin 0) \<and>
   decimals (getDecimalsForValue (Fin 3) None) = Some (Fin 0) \<and>
   getDecimalsForValue (Fin 3) (Some (Fin 2)) = \<lparr>decimals = Some (Fin 2), scaledDecimals = None\<rparr>"
proof -
  have pos: "(0::real) < 3" by simp
  have int3: "js_eq (js_mod (Fin 3) (Fin 1)) (Fin 0)" by (simp add: js_eq_def)
  from getDecimalsForValue_rounding [of "Fin 3" "Fin 2" 3] pos int3 show ?thesis
    by auto
qed

section \<open>Properties of \<open>toNumber\<close>\<close>

text \<open>
  C6. \<open>toNumber\<close> returns a number unchanged, gives 1 for \<open>true\<close> and 0 for \<open>false\<close>,
  and gives NaN for the empty string, \<open>null\<close>, \<open>undefined\<close> and every array.
\<close>

theorem toNumber_cases:
  "toNumber env (JNumber n) = n \<and>
   toNumber env (JBool True) = Fin 1 \<and>
   toNumber env (JBool False) = Fin 0 \<and>
   toNumber env (JString []) = NaN \<and>
   toNumber env JNull = NaN \<and>
   toNumber env JUndefined = NaN \<and>
   toNumber env (JArray xs) = NaN"
  by (simp add: toNumber_def)

theorem toNumber_cases_witness:
  "toNumber ex_env (JNumber (Fin 7)) = Fin 7 \<and>
   toNumber ex_env (JBool True) = Fin 1 \<and>
   toNumber ex_env (JArray [JNumber (Fin 7)]) = NaN"
  using toNumber_cases [of ex_env "Fin 7" "[JNumber (Fin 7)]"] by blast

section \<open>Properties of the display processor\<close>

lemma getDisplayProcessor_field:
  assumes "opt_field opts = Some fld"
  shows "getDisplayProcessor env (Some opts) =
     (displayProcessor env (processorConfig env fld)
        (processorFormat env (processorConfig env fld))
        (getScaleCalculator env (fieldAfter env fld) (opt_theme opts)) (opt_isUtc opts),
      Some (opts\<lparr>opt_field := Some (fieldAfter env fld)\<rparr>))"
  using assms by (simp add: getDisplayProcessor_def isEmpty_def Let_def)

lemma mapValue_numeric:
  "fst (snd (mapValue env config val)) =
     (if hasMappings config then
        (case getMappedValue env (the (cfg_mappings config)) val of
           Some m \<Rightarrow>
             (if isNaN (toNumber env (JString (vm_text m))) then toNumber env val
              else toNumber env (JString (vm_text m)))
         | None \<Rightarrow> toNumber env val)
      else toNumber env val)"
  by (simp add: mapValue_def Let_def split: option.splits)

lemma mapValue_not_NaN:
  "\<not> isNaN (toNumber env val) \<Longrightarrow> \<not> isNaN (fst (snd (mapValue env config val)))"
  by (simp add: mapValue_numeric split: option.splits)

lemma displayProcessor_scaled:
  assumes "\<not> isNaN (fst (snd (mapValue env config val)))"
    and "fst (formatted env config formatFunc isUtc val) \<noteq> []"
  shows "displayProcessor env config formatFunc scaleFunc isUtc val =
     \<lparr>dv_text = fst (formatted env config formatFunc isUtc val),
      dv_numeric = fst (snd (mapValue env config val)),
      dv_prefix = fst (snd (formatted env config formatFunc isUtc val)),
      dv_suffix = snd (snd (formatted env config formatFunc isUtc val)),
      dv_percent = sv_percent (scaleFunc (fst (snd (mapValue env config val)))),
      dv_threshold = sv_threshold (scaleFunc (fst (snd (mapValue env config val)))),
      dv_color = sv_color (scaleFunc (fst (snd (mapValue env config val)))),
      dv_title = None\<rparr>"
  using assms by (auto simp add: displayProcessor_def Let_def split: prod.splits)

lemma formatted_plain:
  "isNaN (fst (snd (mapValue env config val))) \<or> isBoolean val \<or>
     \<not> snd (snd (mapValue env config val)) \<Longrightarrow>
   snd (formatted env config formatFunc isUtc val) = (None, None)"
  by (auto simp add: formatted_def Let_def split: prod.splits)

lemma displayProcessor_fields:
  "dv_numeric (displayProcessor env config formatFunc scaleFunc isUtc val) =
     fst (snd (mapValue env config val)) \<and>
   dv_prefix (displayProcessor env config formatFunc scaleFunc isUtc val) =
     fst (snd (formatted env config formatFunc isUtc val)) \<and>
   dv_suffix (displayProcessor env config formatFunc scaleFunc isUtc val) =
     snd (snd (formatted env config formatFunc isUtc val)) \<and>
   dv_text (displayProcessor env config formatFunc scaleFunc isUtc val) =
     noValueText config (fst (formatted env config formatFunc isUtc val))"
  by (auto simp add: displayProcessor_def Let_def noValueText_def split: prod.splits)

text \<open>The example field: its value mapping turns the raw text \<open>1\<close> into the number 5.\<close>

lemma ex_processorConfig: "processorConfig ex_env ex_field = ex_config"
  by (simp add: processorConfig_def configOf_def timeUnit_def ex_field_def)

lemma ex_hasMappings: "hasMappings ex_config"
  by (simp add: hasMappings_def ex_config_def)

lemma ex_toNumber_1: "toNumber ex_env (JString ''1'') = Fin 1"
  by (simp add: toNumber_def ex_env_def ex_parse_def)

lemma ex_toNumber_5: "toNumber ex_env (JString ''5'') = Fin 5"
  by (simp add: toNumber_def ex_env_def ex_parse_def)

lemma ex_getMappedValue:
  "getMappedValue ex_env (the (cfg_mappings ex_config)) (JString ''1'') =
     Some \<lparr>vm_text = ''5'', vm_value = ''1''\<rparr>"
  by (simp add: ex_env_def ex_config_def)

lemma ex_mapValue: "mapValue ex_env ex_config (JString ''1'') = (''5'', Fin 5, False)"
  by (simp add: mapValue_def Let_def ex_hasMappings ex_getMappedValue ex_toNumber_5)

lemma ex_formatted: "formatted ex_env ex_config ff u (JString ''1'') = (''5'', None, None)"
  by (simp add: formatted_def ex_mapValue)

text \<open>
  C1, as stated, fails. The raw value \<open>'1'\<close> converts to the number 1 and its text is
  not empty, but a value mapping gives it the text \<open>5\<close>, which is a number: the processor
  takes 5 as the numeric value and hands 5 to the scale calculator. The colour of the
  display value is that of 5 (red), not that of the converted input 1 (green).
\<close>

theorem scale_of_mapped_number:
  "toNumber ex_env (JString ''1'') = Fin 1 \<and>
   fst (formatted ex_env (processorConfig ex_env ex_field)
          (processorFormat ex_env (processorConfig ex_env ex_field)) (opt_isUtc ex_options)
          (JString ''1'')) = ''5'' \<and>
   dv_color (fst (getDisplayProcessor ex_env (Some ex_options)) (JString ''1'')) = Some ''red'' \<and>
   sv_color (getScaleCalculator ex_env (fieldAfter ex_env ex_field) (opt_theme ex_options)
     (toNumber ex_env (JString ''1''))) = Some ''green''"
proof -
  have f: "opt_field ex_options = Some ex_field" by (simp add: ex_options_def)
  have c: "dv_color (fst (getDisplayProcessor ex_env (Some ex_options)) (JString ''1'')) = Some ''red''"
    unfolding getDisplayProcessor_field [OF f] fst_conv ex_processorConfig
    by (simp add: displayProcessor_def ex_mapValue ex_formatted) (simp add: ex_env_def)
  have g: "sv_color (getScaleCalculator ex_env (fieldAfter ex_env ex_field) (opt_theme ex_options)
     (toNumber ex_env (JString ''1''))) = Some ''green''"
    unfolding ex_toNumber_1 by (simp add: ex_env_def)
  show ?thesis
    using c g by (simp add: ex_toNumber_1 ex_processorConfig ex_formatted)
qed

text \<open>
  C1, amended. For a processor returned by \<open>getDisplayProcessor\<close> for options with a
  field, and every input value whose conversion to a number is not NaN and whose
  formatted text is not empty, the display value carries the scale information (percent,
  threshold and colour) that the scale calculator computes from the numeric value of the
  display value. That numeric value is the converted input, unless a value mapping
  matches the raw value and its text converts to a number, which is then the numeric
  value.
\<close>

theorem display_value_scaled:
  assumes "opt_field opts = Some fld"
    and "\<not> isNaN (toNumber env val)"
    and "fst (formatted env (processorConfig env fld)
            (processorFormat env (processorConfig env fld)) (opt_isUtc opts) val) \<noteq> []"
  shows "dv_percent (fst (getDisplayProcessor env (Some opts)) val) =
       sv_percent (getScaleCalculator env (fieldAfter env fld) (opt_theme opts)
         (dv_numeric (fst (getDisplayProcessor env (Some opts)) val))) \<and>
     dv_threshold (fst (getDisplayProcessor env (Some opts)) val) =
       sv_threshold (getScaleCalculator env (fieldAfter env fld) (opt_theme opts)
         (dv_numeric (fst (getDisplayProcessor env (Some opts)) val))) \<and>
     dv_color (fst (getDisplayProcessor env (Some opts)) val) =
       sv_color (getScaleCalculator env (fieldAfter env fld) (opt_theme opts)
         (dv_numeric (fst (getDisplayProcessor env (Some opts)) val))) \<and>
     dv_numeric (fst (getDisplayProcessor env (Some opts)) val) =
       (if hasMappings (processorConfig env fld) then
          (case getMappedValue env (the (cfg_mappings (processorConfig env fld))) val of
             Some m \<Rightarrow>
               (if isNaN (toNumber env (JString (vm_text m))) then toNumber env val
                else toNumber env (JString (vm_text m)))
           | None \<Rightarrow> toNumber env val)
        else toNumber env val)"
proof -
  let ?cfg = "processorConfig env fld"
  have n: "\<not> isNaN (fst (snd (mapValue env ?cfg val)))"
    using assms(2) by (rule mapValue_not_NaN)
  show ?thesis
    unfolding getDisplayProcessor_field [OF assms(1)] fst_conv
      displayProcessor_scaled [OF n assms(3)]
    by (simp add: mapValue_numeric)
qed

theorem display_value_scaled_witness:
  "opt_field ex_options = Some ex_field \<and>
   \<not> isNaN (toNumber ex_env (JString ''1'')) \<and>
   fst (formatted ex_env (processorConfig ex_env ex_field)
          (processorFormat ex_env (processorConfig ex_env ex_field)) (opt_isUtc ex_options)
          (JString ''1'')) \<noteq> [] \<and>
   dv_numeric (fst (getDisplayProcessor ex_env (Some ex_options)) (JString ''1'')) = Fin 5 \<and>
   dv_color (fst (getDisplayProcessor ex_env (Some ex_options)) (JString ''1'')) = Some ''red''"
proof -
  have f: "opt_field ex_options = Some ex_field" by (simp add: ex_options_def)
  have n: "\<not> isNaN (toNumber ex_env (JString ''1''))" by (simp add: ex_toNumber_1)
  have t: "fst (formatted ex_env (processorConfig ex_env ex_field)
          (processorFormat ex_env (processorConfig ex_env ex_field)) (opt_isUtc ex_options)
          (JString ''1'')) \<noteq> []"
    by (simp add: ex_processorConfig ex_formatted)
  note th = display_value_scaled [OF f n t]
  from th have num:
    "dv_numeric (fst (getDisplayProcessor ex_env (Some ex_options)) (JString ''1'')) = Fin 5"
    by (simp add: ex_processorConfig ex_hasMappings ex_getMappedValue ex_toNumber_5)
  from th have "dv_color (fst (getDisplayProcessor ex_env (Some ex_options)) (JString ''1'')) =
       sv_color (getScaleCalculator ex_env (fieldAfter ex_env ex_field) (opt_theme ex_options)
         (dv_numeric (fst (getDisplayProcessor ex_env (Some ex_options)) (JString ''1''))))"
    by blast
  then have col:
    "dv_color (fst (getDisplayProcessor ex_env (Some ex_options)) (JString ''1'')) = Some ''red''"
    unfolding num by (simp add: ex_env_def)
  from f n t num col show ?thesis by blast
qed

lemma processor_fields:
  assumes "opt_field opts = Some fld"
  shows "dv_text (fst (getDisplayProcessor env (Some opts)) val) =
        noValueText (processorConfig env fld)
          (fst (formatted env (processorConfig env fld)
             (processorFormat env (processorConfig env fld)) (opt_isUtc opts) val)) \<and>
      dv_numeric (fst (getDisplayProcessor env (Some opts)) val) =
        (if hasMappings (processorConfig env fld) then
           (case getMappedValue env (the (cfg_mappings (processorConfig env fld))) val of
              Some m \<Rightarrow>
                (if isNaN (toNumber env (JString (vm_text m))) then toNumber env val
                 else toNumber env (JString (vm_text m)))
            | None \<Rightarrow> toNumber env val)
         else toNumber env val) \<and>
      (dv_prefix (fst (getDisplayProcessor env (Some opts)) val),
       dv_suffix (fst (getDisplayProcessor env (Some opts)) val)) =
        snd (formatted env (processorConfig env fld)
           (processorFormat env (processorConfig env fld)) (opt_isUtc opts) val) \<and>
      (isNaN (dv_numeric (fst (getDisplayProcessor env (Some opts)) val)) \<or> isBoolean val \<longrightarrow>
         dv_prefix (fst (getDisplayProcessor env (Some opts)) val) = None \<and>
         dv_suffix (fst (getDisplayProcessor env (Some opts)) val) = None)"
proof -
  let ?cfg = "processorConfig env fld"
  let ?p = "displayProcessor env ?cfg (processorFormat env ?cfg)
      (getScaleCalculator env (fieldAfter env fld) (opt_theme opts)) (opt_isUtc opts)"
  have p: "fst (getDisplayProcessor env (Some opts)) = ?p"
    by (simp add: getDisplayProcessor_field [OF assms])
  note flds = displayProcessor_fields [of env ?cfg "processorFormat env ?cfg"
      "getScaleCalculator env (fieldAfter env fld) (opt_theme opts)" "opt_isUtc opts" val]
  have plain: "isNaN (dv_numeric (?p val)) \<or> isBoolean val \<longrightarrow>
      dv_prefix (?p val) = None \<and> dv_suffix (?p val) = None"
    using flds formatted_plain [of env ?cfg val "processorFormat env ?cfg" "opt_isUtc opts"]
    by auto
  show ?thesis
    unfolding p using flds plain by (simp add: mapValue_numeric [symmetric])
qed

text \<open>
  C2. Every processor returns, for every raw value, a display value with a text (a
  string), a numeric value (a number) and a prefix and a suffix that are strings or
  absent. Without options, or with options that are empty or have no field,
  \<open>getDisplayProcessor\<close> returns \<open>toStringProcessor\<close>, whose display value has the text
  \<open>_.toString(value)\<close>, the number \<open>toNumber(value)\<close> and neither prefix nor suffix. With a
  field, the text is the formatted text (or \<open>config.noValue\<close> when that is empty), the
  number is the converted input or the number of the mapped text, and prefix and suffix
  are those of the formatter when it is applied; they are absent when the number is NaN
  or the value is a boolean.
\<close>

theorem display_value_tuple:
  "getDisplayProcessor env None = (toStringProcessor env, None) \<and>
   (isEmpty opts \<or> opt_field opts = None \<longrightarrow>
      getDisplayProcessor env (Some opts) = (toStringProcessor env, Some opts)) \<and>
   toStringProcessor env val =
     \<lparr>dv_text = lodash_toString env val, dv_numeric = toNumber env val,
      dv_prefix = None, dv_suffix = None,
      dv_percent = None, dv_threshold = None, dv_color = None, dv_title = None\<rparr> \<and>
   (opt_field opts = Some fld \<longrightarrow>
      dv_text (fst (getDisplayProcessor env (Some opts)) val) =
        noValueText (processorConfig env fld)
          (fst (formatted env (processorConfig env fld)
             (processorFormat env (processorConfig env fld)) (opt_isUtc opts) val)) \<and>
      dv_numeric (fst (getDisplayProcessor env (Some opts)) val) =
        (if hasMappings (processorConfig env fld) then
           (case getMappedValue env (the (cfg_mappings (processorConfig env fld))) val of
              Some m \<Rightarrow>
                (if isNaN (toNumber env (JString (vm_text m))) then toNumber env val
                 else toNumber env (JString (vm_text m)))
            | None \<Rightarrow> toNumber env val)
         else toNumber env val) \<and>
      (dv_prefix (fst (getDisplayProcessor env (Some opts)) val),
       dv_suffix (fst (getDisplayProcessor env (Some opts)) val)) =
        snd (formatted env (processorConfig env fld)
           (processorFormat env (processorConfig env fld)) (opt_isUtc opts) val) \<and>
      (isNaN (dv_numeric (fst (getDisplayProcessor env (Some opts)) val)) \<or> isBoolean val \<longrightarrow>
         dv_prefix (fst (getDisplayProcessor env (Some opts)) val) = None \<and>
         dv_suffix (fst (getDisplayProcessor env (Some opts)) val) = None))"
  using processor_fields [of opts fld env val]
  by (simp add: getDisplayProcessor_def toStringProcessor_def)

theorem display_value_tuple_witness:
  "isEmpty ex_empty_options \<and>
   getDisplayProcessor ex_env (Some ex_empty_options) =
     (toStringProcessor ex_env, Some ex_empty_options) \<and>
   opt_field ex_options = Some ex_field \<and> isBoolean (JBool True) \<and>
   dv_numeric (fst (getDisplayProcessor ex_env (Some ex_options)) (JBool True)) = Fin 1 \<and>
   dv_prefix (fst (getDisplayProcessor ex_env (Some ex_options)) (JBool True)) = None \<and>
   dv_suffix (fst (getDisplayProcessor ex_env (Some ex_options)) (JBool True)) = None"
proof -
  have e: "isEmpty ex_empty_options"
    by (simp add: isEmpty_def ex_empty_options_def)
  have f: "opt_field ex_options = Some ex_field"
    by (simp add: ex_options_def)
  have m: "getMappedValue ex_env (the (cfg_mappings ex_config)) (JBool True) = None"
    by (simp add: ex_env_def)
  from display_value_tuple [where env = ex_env and opts = ex_empty_options] e
  have t: "getDisplayProcessor ex_env (Some ex_empty_options) =
     (toStringProcessor ex_env, Some ex_empty_options)"
    by blast
  from display_value_tuple
    [where env = ex_env and opts = ex_options and fld = ex_field and val = "JBool True"] f
  have "dv_numeric (fst (getDisplayProcessor ex_env (Some ex_options)) (JBool True)) = Fin 1 \<and>
   dv_prefix (fst (getDisplayProcessor ex_env (Some ex_options)) (JBool True)) = None \<and>
   dv_suffix (fst (getDisplayProcessor ex_env (Some ex_options)) (JBool True)) = None"
    by (simp add: ex_processorConfig ex_hasMappings m toNumber_def)
  with e f t show ?thesis by simp
qed

text \<open>The imports at an instant differ from the imports in the formatters only.\<close>

lemma envAt_fields:
  "lodash_toString (envAt env formatters now) = lodash_toString env"
  "lodash_toNumber (envAt env formatters now) = lodash_toNumber env"
  "ToNumber (envAt env formatters now) = ToNumber env"
  "getMappedValue (envAt env formatters now) = getMappedValue env"
  "getScaleCalculator (envAt env formatters now) = getScaleCalculator env"
  "DEFAULT_DATE_TIME_FORMAT (envAt env formatters now) = DEFAULT_DATE_TIME_FORMAT env"
  "getValueFormat (envAt env formatters now) u = formatters u now"
  by (simp_all add: envAt_def)

lemma toNumber_envAt: "toNumber (envAt env formatters now) = toNumber env"
  by (rule ext) (simp add: toNumber_def envAt_fields split: jsval.splits)

lemma toStringProcessor_envAt:
  "toStringProcessor (envAt env formatters now) = toStringProcessor env"
  by (rule ext) (simp add: toStringProcessor_def toNumber_envAt envAt_fields)

lemma mapValue_envAt: "mapValue (envAt env formatters now) config val = mapValue env config val"
  by (simp add: mapValue_def Let_def toNumber_envAt envAt_fields cong: if_cong option.case_cong)

lemma formatValue_envAt:
  "formatValue (envAt env formatters now) config ff isUtc val n =
     formatValue env config ff isUtc val n"
  by (cases val)
    (simp_all add: formatValue_def Let_def envAt_fields cong: if_cong option.case_cong)

lemma formatted_envAt:
  "formatted (envAt env formatters now) config ff isUtc val = formatted env config ff isUtc val"
  by (simp add: formatted_def mapValue_envAt formatValue_envAt cong: if_cong prod.case_cong)

lemma displayProcessor_envAt:
  "displayProcessor (envAt env formatters now) config ff sf isUtc val =
     displayProcessor env config ff sf isUtc val"
  by (simp add: displayProcessor_def mapValue_envAt formatted_envAt cong: if_cong prod.case_cong)

lemma processorConfig_envAt:
  "processorConfig (envAt env formatters now) fld = processorConfig env fld"
  by (simp add: processorConfig_def timeUnit_def envAt_fields)

lemma fieldAfter_envAt: "fieldAfter (envAt env formatters now) fld = fieldAfter env fld"
  by (simp add: fieldAfter_def timeUnit_def envAt_fields split: option.splits)

lemma processorFormat_envAt:
  "processorFormat (envAt env formatters now) config = capturedFormat formatters config now"
  by (simp add: processorFormat_def capturedFormat_def envAt_fields)

text \<open>The processor built from the imports at an instant is the call at that instant.\<close>

lemma processor_at:
  assumes "opt_field opts = Some fld"
  shows "fst (getDisplayProcessor (envAt env formatters now) (Some opts)) val =
     fst (callProcessor env (capturedFormat formatters (processorConfig env fld))
       (getScaleCalculator env (fieldAfter env fld) (opt_theme opts)) (opt_isUtc opts) val now
       (processorConfig env fld))"
  by (simp add: getDisplayProcessor_field [OF assms] callProcessor_def displayProcessor_envAt
      processorConfig_envAt fieldAfter_envAt processorFormat_envAt envAt_fields)

text \<open>
  The processor calls the formatter once, with the number and the decimals of the value:
  two formatters that agree there give the same display value.
\<close>

lemma formatValue_cong:
  assumes "ff1 n (decimals (getDecimalsForValue
               (case val of JNumber m \<Rightarrow> m | _ \<Rightarrow> ToNumber env val) (cfg_decimals config)))
             (scaledDecimals (getDecimalsForValue
               (case val of JNumber m \<Rightarrow> m | _ \<Rightarrow> ToNumber env val) (cfg_decimals config))) isUtc =
           ff2 n (decimals (getDecimalsForValue
               (case val of JNumber m \<Rightarrow> m | _ \<Rightarrow> ToNumber env val) (cfg_decimals config)))
             (scaledDecimals (getDecimalsForValue
               (case val of JNumber m \<Rightarrow> m | _ \<Rightarrow> ToNumber env val) (cfg_decimals config))) isUtc"
  shows "formatValue env config ff1 isUtc val n = formatValue env config ff2 isUtc val n"
  unfolding formatValue_def Let_def by (simp only: assms)

lemma formatted_cong:
  assumes "formatValue env config ff1 isUtc val (fst (snd (mapValue env config val))) =
           formatValue env config ff2 isUtc val (fst (snd (mapValue env config val)))"
  shows "formatted env config ff1 isUtc val = formatted env config ff2 isUtc val"
  using assms by (cases "mapValue env config val") (simp add: formatted_def)

lemma displayProcessor_cong:
  assumes "formatted env config ff1 isUtc val = formatted env config ff2 isUtc val"
  shows "displayProcessor env config ff1 sf isUtc val = displayProcessor env config ff2 sf isUtc val"
  using assms by (simp add: displayProcessor_def)

lemma processor_same_format:
  assumes "opt_field opts = Some fld"
    and "capturedFormat formatters (processorConfig env fld) now1
           (fst (snd (mapValue env (processorConfig env fld) val)))
           (decimals (getDecimalsForValue
              (case val of JNumber m \<Rightarrow> m | _ \<Rightarrow> ToNumber env val)
              (cfg_decimals (processorConfig env fld))))
           (scaledDecimals (getDecimalsForValue
              (case val of JNumber m \<Rightarrow> m | _ \<Rightarrow> ToNumber env val)
              (cfg_decimals (processorConfig env fld))))
           (opt_isUtc opts) =
         capturedFormat formatters (processorConfig env fld) now2
           (fst (snd (mapValue env (processorConfig env fld) val)))
           (decimals (getDecimalsForValue
              (case val of JNumber m \<Rightarrow> m | _ \<Rightarrow> ToNumber env val)
              (cfg_decimals (processorConfig env fld))))
           (scaledDecimals (getDecimalsForValue
              (case val of JNumber m \<Rightarrow> m | _ \<Rightarrow> ToNumber env val)
              (cfg_decimals (processorConfig env fld))))
           (opt_isUtc opts)"
  shows "fst (getDisplayProcessor (envAt env formatters now1) (Some opts)) val =
       fst (getDisplayProcessor (envAt env formatters now2) (Some opts)) val \<and>
     callTwice env (capturedFormat formatters (processorConfig env fld))
         (getScaleCalculator env (fieldAfter env fld) (opt_theme opts)) (opt_isUtc opts) val
         now1 now2 (processorConfig env fld) =
       (fst (getDisplayProcessor (envAt env formatters now1) (Some opts)) val,
        fst (getDisplayProcessor (envAt env formatters now2) (Some opts)) val) \<and>
     snd (callProcessor env (capturedFormat formatters (processorConfig env fld))
         (getScaleCalculator env (fieldAfter env fld) (opt_theme opts)) (opt_isUtc opts) val
         now1 (processorConfig env fld)) = processorConfig env fld"
proof -
  let ?cfg = "processorConfig env fld"
  let ?F = "capturedFormat formatters ?cfg"
  let ?sf = "getScaleCalculator env (fieldAfter env fld) (opt_theme opts)"
  have fv: "formatValue env ?cfg (?F now1) (opt_isUtc opts) val (fst (snd (mapValue env ?cfg val))) =
      formatValue env ?cfg (?F now2) (opt_isUtc opts) val (fst (snd (mapValue env ?cfg val)))"
    using assms(2) by (rule formatValue_cong)
  have dp: "displayProcessor env ?cfg (?F now1) ?sf (opt_isUtc opts) val =
      displayProcessor env ?cfg (?F now2) ?sf (opt_isUtc opts) val"
    by (rule displayProcessor_cong, rule formatted_cong, rule fv)
  have c1: "fst (getDisplayProcessor (envAt env formatters now1) (Some opts)) val =
      displayProcessor env ?cfg (?F now1) ?sf (opt_isUtc opts) val"
    by (simp add: processor_at [OF assms(1)] callProcessor_def)
  have c2: "fst (getDisplayProcessor (envAt env formatters now2) (Some opts)) val =
      displayProcessor env ?cfg (?F now2) ?sf (opt_isUtc opts) val"
    by (simp add: processor_at [OF assms(1)] callProcessor_def)
  show ?thesis
    unfolding c1 c2 using dp by (simp add: callTwice_def callProcessor_def)
qed

lemma ex_fromNow_config:
  "processorConfig ex_env ex_fromNow_field = emptyConfig\<lparr>cfg_unit := Some ''dateTimeFromNow''\<rparr>"
  by (simp add: processorConfig_def configOf_def timeUnit_def ex_fromNow_field_def
      timeFormats_lookup_def timeFormats_def)

lemma ex_fromNow_text:
  "dv_text (displayProcessor ex_env (emptyConfig\<lparr>cfg_unit := Some ''dateTimeFromNow''\<rparr>)
      (ex_formatters ''dateTimeFromNow'' now) sf None (JNumber (Fin 0))) =
     (if real now < 45000 then ''a few seconds ago'' else ''a minute ago'')"
  by (simp add: displayProcessor_def formatted_def mapValue_def formatValue_def hasMappings_def
      emptyConfig_def toNumber_def ex_formatters_def Let_def noValueText_def)

text \<open>
  C7, as stated, fails. The source lists the unit \<open>dateTimeFromNow\<close>, and its
  formatter reads the clock each time the processor calls it. With fixed options for a
  time field of that unit, the call with the value 0 made one second after that time
  returns the text \<open>a few seconds ago\<close>, and the call with the same value made a minute
  after it returns \<open>a minute ago\<close>.
\<close>

theorem fromNow_reads_clock:
  "opt_field ex_fromNow_options = Some ex_fromNow_field \<and>
   dv_text (fst (getDisplayProcessor (envAt ex_env ex_formatters 1000)
      (Some ex_fromNow_options)) (JNumber (Fin 0))) = ''a few seconds ago'' \<and>
   dv_text (fst (getDisplayProcessor (envAt ex_env ex_formatters 60000)
      (Some ex_fromNow_options)) (JNumber (Fin 0))) = ''a minute ago'' \<and>
   dv_text (fst (callTwice ex_env
      (capturedFormat ex_formatters (processorConfig ex_env ex_fromNow_field))
      (getScaleCalculator ex_env (fieldAfter ex_env ex_fromNow_field) (opt_theme ex_fromNow_options))
      (opt_isUtc ex_fromNow_options) (JNumber (Fin 0)) 1000 60000
      (processorConfig ex_env ex_fromNow_field))) = ''a few seconds ago'' \<and>
   dv_text (snd (callTwice ex_env
      (capturedFormat ex_formatters (processorConfig ex_env ex_fromNow_field))
      (getScaleCalculator ex_env (fieldAfter ex_env ex_fromNow_field) (opt_theme ex_fromNow_options))
      (opt_isUtc ex_fromNow_options) (JNumber (Fin 0)) 1000 60000
      (processorConfig ex_env ex_fromNow_field))) = ''a minute ago''"
proof -
  have f: "opt_field ex_fromNow_options = Some ex_fromNow_field"
    by (simp add: ex_fromNow_options_def)
  have cap: "capturedFormat ex_formatters (emptyConfig\<lparr>cfg_unit := Some ''dateTimeFromNow''\<rparr>) now =
      ex_formatters ''dateTimeFromNow'' now" for now
    by (simp add: capturedFormat_def)
  have utc: "opt_isUtc ex_fromNow_options = None"
    by (simp add: ex_fromNow_options_def)
  have a: "dv_text (fst (getDisplayProcessor (envAt ex_env ex_formatters now)
      (Some ex_fromNow_options)) (JNumber (Fin 0))) =
      (if real now < 45000 then ''a few seconds ago'' else ''a minute ago'')" for now
    by (simp only: processor_at [OF f] callProcessor_def fst_conv ex_fromNow_config cap utc
        ex_fromNow_text)
  have b: "callTwice ex_env (capturedFormat ex_formatters (processorConfig ex_env ex_fromNow_field))
      (getScaleCalculator ex_env (fieldAfter ex_env ex_fromNow_field) (opt_theme ex_fromNow_options))
      (opt_isUtc ex_fromNow_options) (JNumber (Fin 0)) 1000 60000
      (processorConfig ex_env ex_fromNow_field) =
     (fst (getDisplayProcessor (envAt ex_env ex_formatters 1000)
         (Some ex_fromNow_options)) (JNumber (Fin 0)),
      fst (getDisplayProcessor (envAt ex_env ex_formatters 60000)
         (Some ex_fromNow_options)) (JNumber (Fin 0)))"
    by (simp add: processor_at [OF f] callTwice_def callProcessor_def)
  show ?thesis
    unfolding b fst_conv snd_conv using f a [of 1000] a [of 60000] by simp
qed

text \<open>
  C7, amended. For a processor returned by \<open>getDisplayProcessor\<close> from fixed options,
  two calls with the same input value return equal display values (text, numeric value,
  prefix, suffix and scale information) provided the formatter the processor has
  captured returns, at the instants of the two calls, the same formatted value for the
  number and the decimals that the processor passes to it. This is so in particular
  when the captured formatter is the same function at both instants, that is, when it
  does not read the clock. The processor returned for absent, empty or field-less
  options calls no formatter, and its two calls always return equal display values. A
  call leaves the captured configuration as it was.
\<close>

theorem processor_calls_repeat:
  "(opt_field opts = Some fld \<and>
    capturedFormat formatters (processorConfig env fld) now1
      (fst (snd (mapValue env (processorConfig env fld) val)))
      (decimals (getDecimalsForValue
         (case val of JNumber m \<Rightarrow> m | _ \<Rightarrow> ToNumber env val)
         (cfg_decimals (processorConfig env fld))))
      (scaledDecimals (getDecimalsForValue
         (case val of JNumber m \<Rightarrow> m | _ \<Rightarrow> ToNumber env val)
         (cfg_decimals (processorConfig env fld))))
      (opt_isUtc opts) =
    capturedFormat formatters (processorConfig env fld) now2
      (fst (snd (mapValue env (processorConfig env fld) val)))
      (decimals (getDecimalsForValue
         (case val of JNumber m \<Rightarrow> m | _ \<Rightarrow> ToNumber env val)
         (cfg_decimals (processorConfig env fld))))
      (scaledDecimals (getDecimalsForValue
         (case val of JNumber m \<Rightarrow> m | _ \<Rightarrow> ToNumber env val)
         (cfg_decimals (processorConfig env fld))))
      (opt_isUtc opts) \<longrightarrow>
    fst (getDisplayProcessor (envAt env formatters now1) (Some opts)) val =
      fst (getDisplayProcessor (envAt env formatters now2) (Some opts)) val \<and>
    callTwice env (capturedFormat formatters (processorConfig env fld))
        (getScaleCalculator env (fieldAfter env fld) (opt_theme opts)) (opt_isUtc opts) val
        now1 now2 (processorConfig env fld) =
      (fst (getDisplayProcessor (envAt env formatters now1) (Some opts)) val,
       fst (getDisplayProcessor (envAt env formatters now2) (Some opts)) val) \<and>
    snd (callProcessor env (capturedFormat formatters (processorConfig env fld))
        (getScaleCalculator env (fieldAfter env fld) (opt_theme opts)) (opt_isUtc opts) val
        now1 (processorConfig env fld)) = processorConfig env fld) \<and>
   (opt_field opts = Some fld \<and>
    capturedFormat formatters (processorConfig env fld) now1 =
      capturedFormat formatters (processorConfig env fld) now2 \<longrightarrow>
    fst (getDisplayProcessor (envAt env formatters now1) (Some opts)) val =
      fst (getDisplayProcessor (envAt env formatters now2) (Some opts)) val) \<and>
   (isEmpty opts \<or> opt_field opts = None \<longrightarrow>
    fst (getDisplayProcessor (envAt env formatters now1) (Some opts)) val =
      fst (getDisplayProcessor (envAt env formatters now2) (Some opts)) val) \<and>
   fst (getDisplayProcessor (envAt env formatters now1) None) val =
     fst (getDisplayProcessor (envAt env formatters now2) None) val"
proof -
  have clockfree: "opt_field opts = Some fld \<and>
    capturedFormat formatters (processorConfig env fld) now1 =
      capturedFormat formatters (processorConfig env fld) now2 \<longrightarrow>
    fst (getDisplayProcessor (envAt env formatters now1) (Some opts)) val =
      fst (getDisplayProcessor (envAt env formatters now2) (Some opts)) val"
  proof
    assume h: "opt_field opts = Some fld \<and>
      capturedFormat formatters (processorConfig env fld) now1 =
        capturedFormat formatters (processorConfig env fld) now2"
    then have f: "opt_field opts = Some fld" by (rule conjunct1)
    from processor_same_format [OF f, of formatters env now1 val now2] h
    show "fst (getDisplayProcessor (envAt env formatters now1) (Some opts)) val =
      fst (getDisplayProcessor (envAt env formatters now2) (Some opts)) val"
      by simp
  qed
  have fallback: "isEmpty opts \<or> opt_field opts = None \<longrightarrow>
    fst (getDisplayProcessor (envAt env formatters now1) (Some opts)) val =
      fst (getDisplayProcessor (envAt env formatters now2) (Some opts)) val"
    by (simp add: getDisplayProcessor_def toStringProcessor_envAt)
  have absent: "fst (getDisplayProcessor (envAt env formatters now1) None) val =
     fst (getDisplayProcessor (envAt env formatters now2) None) val"
    by (simp add: getDisplayProcessor_def toStringProcessor_envAt)
  from clockfree fallback absent
    processor_same_format [of opts fld formatters env now1 val now2]
  show ?thesis by blast
qed

theorem processor_calls_repeat_witness:
  "opt_field ex_options = Some ex_field \<and>
   fst (getDisplayProcessor (envAt ex_env ex_formatters 1000) (Some ex_options)) (JNumber (Fin 7)) =
     fst (getDisplayProcessor (envAt ex_env ex_formatters 60000) (Some ex_options))
       (JNumber (Fin 7)) \<and>
   isEmpty ex_empty_options \<and>
   fst (getDisplayProcessor (envAt ex_env ex_formatters 1000) (Some ex_empty_options))
       (JNumber (Fin 7)) =
     fst (getDisplayProcessor (envAt ex_env ex_formatters 60000) (Some ex_empty_options))
       (JNumber (Fin 7))"
proof -
  have f: "opt_field ex_options = Some ex_field" by (simp add: ex_options_def)
  have e: "isEmpty ex_empty_options"
    by (simp add: isEmpty_def ex_empty_options_def)
  have cap: "capturedFormat ex_formatters (processorConfig ex_env ex_field) now =
      getValueFormat ex_env ''none''" for now
    by (rule ext)+ (simp add: capturedFormat_def ex_processorConfig ex_config_def emptyConfig_def
        ex_formatters_def)
  from processor_calls_repeat [where env = ex_env and formatters = ex_formatters
      and opts = ex_options and fld = ex_field
      and ?now1.0 = 1000 and ?now2.0 = 60000 and val = "JNumber (Fin 7)"] f
  have a: "fst (getDisplayProcessor (envAt ex_env ex_formatters 1000) (Some ex_options))
       (JNumber (Fin 7)) =
     fst (getDisplayProcessor (envAt ex_env ex_formatters 60000) (Some ex_options))
       (JNumber (Fin 7))"
    unfolding cap by blast
  from processor_calls_repeat [where env = ex_env and formatters = ex_formatters
      and opts = ex_empty_options
      and ?now1.0 = 1000 and ?now2.0 = 60000 and val = "JNumber (Fin 7)"] e
  have b: "fst (getDisplayProcessor (envAt ex_env ex_formatters 1000) (Some ex_empty_options))
       (JNumber (Fin 7)) =
     fst (getDisplayProcessor (envAt ex_env ex_formatters 60000) (Some ex_empty_options))
       (JNumber (Fin 7))"
    by blast
  from f a e b show ?thesis by blast
qed

text \<open>
  C9, as stated, fails. A time field that has no configuration is left as it is: the
  processor works on a new empty object, and the unit is written there, not into the
  caller's field, whose \<open>config\<close> stays absent.
\<close>

theorem time_field_without_config:
  "opt_field ex_time_options = Some ex_time_field \<and>
   fld_type ex_time_field = Some FieldType_time \<and>
   fld_config ex_time_field = None \<and>
   snd (getDisplayProcessor ex_env (Some ex_time_options)) = Some ex_time_options"
  by (simp add: getDisplayProcessor_def isEmpty_def fieldAfter_def Let_def
      ex_time_options_def ex_time_field_def)

text \<open>
  C9, amended. When the field has a configuration object, its type is time and
  \<open>config.unit\<close> is absent or is neither one of the three date-time formats, nor a
  string starting with \<open>time:\<close>, nor the name of a member of \<open>Object.prototype\<close>, then
  \<open>getDisplayProcessor\<close> overwrites the caller's \<open>field.config.unit\<close> with \<open>time:\<close>
  followed by the default date-time format and leaves every other field of the
  configuration, of the field and of the options as it was. For a field whose type is
  not time, nothing of the caller's options changes; and for a field without a
  configuration object, of whatever type, nothing of the caller's options changes.
\<close>

theorem getDisplayProcessor_unit_frame:
  assumes "opt_field opts = Some fld"
  shows "(fld_type fld = Some FieldType_time \<and> fld_config fld = Some c \<and>
      (\<forall>u. cfg_unit c = Some u \<longrightarrow>
         u \<notin> fst ` set timeFormats \<and> u \<notin> set Object_prototype_names \<and>
         \<not> startsWith u ''time:'') \<longrightarrow>
      snd (getDisplayProcessor env (Some opts)) =
        Some (opts\<lparr>opt_field := Some (fld\<lparr>fld_config :=
          Some (c\<lparr>cfg_unit := Some (''time:'' @ DEFAULT_DATE_TIME_FORMAT env)\<rparr>)\<rparr>)\<rparr>)) \<and>
     (fld_type fld \<noteq> Some FieldType_time \<longrightarrow>
      snd (getDisplayProcessor env (Some opts)) = Some opts) \<and>
     (fld_config fld = None \<longrightarrow>
      snd (getDisplayProcessor env (Some opts)) = Some opts)"
proof -
  have lookup:
    "timeFormats_lookup u = (u \<in> fst ` set timeFormats \<or> u \<in> set Object_prototype_names)"
    for u
    by (auto simp add: timeFormats_lookup_def timeFormats_def split: option.splits if_splits)
  have time: "fld_type fld = Some FieldType_time \<and> fld_config fld = Some c \<and>
      (\<forall>u. cfg_unit c = Some u \<longrightarrow>
         u \<notin> fst ` set timeFormats \<and> u \<notin> set Object_prototype_names \<and>
         \<not> startsWith u ''time:'') \<longrightarrow>
      fieldAfter env fld =
        fld\<lparr>fld_config := Some (c\<lparr>cfg_unit := Some (''time:'' @ DEFAULT_DATE_TIME_FORMAT env)\<rparr>)\<rparr>"
    by (cases "cfg_unit c") (auto simp add: fieldAfter_def timeUnit_def lookup)
  have other: "fld_type fld \<noteq> Some FieldType_time \<longrightarrow> fieldAfter env fld = fld"
    by (simp add: fieldAfter_def timeUnit_def split: option.splits)
  have none: "fld_config fld = None \<longrightarrow> fieldAfter env fld = fld"
    by (simp add: fieldAfter_def)
  have same: "opts\<lparr>opt_field := Some fld\<rparr> = opts"
    using assms by simp
  show ?thesis
    unfolding getDisplayProcessor_field [OF assms] snd_conv
    using time other none same by auto
qed

theorem getDisplayProcessor_unit_frame_witness:
  "snd (getDisplayProcessor ex_env (Some ex_short_options)) =
     Some (ex_short_options\<lparr>opt_field := Some (ex_short_field\<lparr>fld_config :=
       Some (emptyConfig\<lparr>cfg_unit := Some ''time:YYYY-MM-DD HH:mm:ss''\<rparr>)\<rparr>)\<rparr>) \<and>
   fld_type ex_field \<noteq> Some FieldType_time \<and>
   snd (getDisplayProcessor ex_env (Some ex_options)) = Some ex_options \<and>
   fld_type ex_time_field = Some FieldType_time \<and> fld_config ex_time_field = None \<and>
   snd (getDisplayProcessor ex_env (Some ex_time_options)) = Some ex_time_options"
proof -
  have f: "opt_field ex_short_options = Some ex_short_field"
    by (simp add: ex_short_options_def)
  have h: "fld_type ex_short_field = Some FieldType_time \<and>
      fld_config ex_short_field = Some (emptyConfig\<lparr>cfg_unit := Some ''short''\<rparr>) \<and>
      (\<forall>u. cfg_unit (emptyConfig\<lparr>cfg_unit := Some ''short''\<rparr>) = Some u \<longrightarrow>
         u \<notin> fst ` set timeFormats \<and> u \<notin> set Object_prototype_names \<and>
         \<not> startsWith u ''time:'')"
    by (simp add: ex_short_field_def timeFormats_def Object_prototype_names_def startsWith_def)
  from getDisplayProcessor_unit_frame
    [OF f, where c = "emptyConfig\<lparr>cfg_unit := Some ''short''\<rparr>" and env = ex_env] h
  have a: "snd (getDisplayProcessor ex_env (Some ex_short_options)) =
     Some (ex_short_options\<lparr>opt_field := Some (ex_short_field\<lparr>fld_config :=
       Some (emptyConfig\<lparr>cfg_unit := Some ''time:YYYY-MM-DD HH:mm:ss''\<rparr>)\<rparr>)\<rparr>)"
    by (simp add: ex_env_def)
  have g: "opt_field ex_options = Some ex_field"
    by (simp add: ex_options_def)
  have t: "fld_type ex_field \<noteq> Some FieldType_time"
    by (simp add: ex_field_def)
  from getDisplayProcessor_unit_frame [OF g, where env = ex_env] t
  have b: "snd (getDisplayProcessor ex_env (Some ex_options)) = Some ex_options"
    by blast
  have k: "opt_field ex_time_options = Some ex_time_field"
    by (simp add: ex_time_options_def)
  have n: "fld_type ex_time_field = Some FieldType_time \<and> fld_config ex_time_field = None"
    by (simp add: ex_time_field_def)
  from getDisplayProcessor_unit_frame [OF k, where env = ex_env] n
  have c: "snd (getDisplayProcessor ex_env (Some ex_time_options)) = Some ex_time_options"
    by blast
  from a t b n c show ?thesis by blast
qed

section \<open>Properties of the gauge\<close>

text \<open>
  C4. For a non-empty threshold list \<open>getFormattedThresholds\<close> returns one breakpoint
  more than there are thresholds: the first has the value \<open>minValue\<close> and the colour of
  the first threshold, entry \<open>i\<close> with \<open>0 < i < length\<close> has the value of threshold
  \<open>i\<close> and the colour of threshold \<open>i - 1\<close>, and the last has the value \<open>maxValue\<close> and
  the colour of the last threshold. Every colour is passed through
  \<open>getColorFromHexRgbOrName\<close> with the type of the theme.
\<close>

theorem getFormattedThresholds_breakpoints:
  assumes "sc_thresholds (p_scale props) \<noteq> []"
  shows "\<exists>r. getFormattedThresholds env props = Inr r \<and>
     length r = length (sc_thresholds (p_scale props)) + 1 \<and>
     r ! 0 = \<lparr>th_value = p_minValue props,
              th_color = getColorFromHexRgbOrName env
                (th_color (sc_thresholds (p_scale props) ! 0)) (theme_type (p_theme props))\<rparr> \<and>
     (\<forall>i. 0 < i \<and> i < length (sc_thresholds (p_scale props)) \<longrightarrow>
        r ! i = \<lparr>th_value = th_value (sc_thresholds (p_scale props) ! i),
                 th_color = getColorFromHexRgbOrName env
                   (th_color (sc_thresholds (p_scale props) ! (i - 1)))
                   (theme_type (p_theme props))\<rparr>) \<and>
     r ! length (sc_thresholds (p_scale props)) =
       \<lparr>th_value = p_maxValue props,
        th_color = getColorFromHexRgbOrName env
          (th_color (last (sc_thresholds (p_scale props)))) (theme_type (p_theme props))\<rparr>"
  using assms
  by (simp add: getFormattedThresholds_def Let_def nth_append nth_enumerate_eq last_conv_nth)

theorem getFormattedThresholds_breakpoints_witness:
  "sc_thresholds (p_scale ex_props) \<noteq> [] \<and>
   getFormattedThresholds ex_gauge_env ex_props =
     Inr [\<lparr>th_value = Fin 0, th_color = ''green''\<rparr>,
          \<lparr>th_value = Fin 80, th_color = ''green''\<rparr>,
          \<lparr>th_value = Fin 100, th_color = ''red''\<rparr>]"
proof -
  have ne: "sc_thresholds (p_scale ex_props) \<noteq> []"
    by (simp add: ex_props_def)
  from getFormattedThresholds_breakpoints [OF ne, of ex_gauge_env]
  obtain r where r: "getFormattedThresholds ex_gauge_env ex_props = Inr r"
    and len: "length r = length (sc_thresholds (p_scale ex_props)) + 1"
    and r0: "r ! 0 = \<lparr>th_value = p_minValue ex_props,
              th_color = getColorFromHexRgbOrName ex_gauge_env
                (th_color (sc_thresholds (p_scale ex_props) ! 0)) (theme_type (p_theme ex_props))\<rparr>"
    and ri: "\<forall>i. 0 < i \<and> i < length (sc_thresholds (p_scale ex_props)) \<longrightarrow>
        r ! i = \<lparr>th_value = th_value (sc_thresholds (p_scale ex_props) ! i),
                 th_color = getColorFromHexRgbOrName ex_gauge_env
                   (th_color (sc_thresholds (p_scale ex_props) ! (i - 1)))
                   (theme_type (p_theme ex_props))\<rparr>"
    and rn: "r ! length (sc_thresholds (p_scale ex_props)) =
       \<lparr>th_value = p_maxValue ex_props,
        th_color = getColorFromHexRgbOrName ex_gauge_env
          (th_color (last (sc_thresholds (p_scale ex_props)))) (theme_type (p_theme ex_props))\<rparr>"
    by blast
  from len have l3: "length r = Suc (Suc (Suc 0))" by (simp add: ex_props_def)
  from ri have r1: "r ! Suc 0 = \<lparr>th_value = Fin 80, th_color = ''green''\<rparr>"
    by (simp add: ex_props_def ex_gauge_env_def)
  from r0 have r0': "r ! 0 = \<lparr>th_value = Fin 0, th_color = ''green''\<rparr>"
    by (simp add: ex_props_def ex_gauge_env_def)
  from rn have r2: "r ! Suc (Suc 0) = \<lparr>th_value = Fin 100, th_color = ''red''\<rparr>"
    by (simp add: ex_props_def ex_gauge_env_def)
  from l3 obtain a b c where abc: "r = [a, b, c]"
    by (auto simp add: length_Suc_conv)
  with r0' r1 r2 have "r = [\<lparr>th_value = Fin 0, th_color = ''green''\<rparr>,
          \<lparr>th_value = Fin 80, th_color = ''green''\<rparr>,
          \<lparr>th_value = Fin 100, th_color = ''red''\<rparr>]"
    by simp
  with r ne show ?thesis by simp
qed

lemma getFormattedThresholds_not_Thrown: "getFormattedThresholds env props \<noteq> Inl (Thrown e)"
  by (simp add: getFormattedThresholds_def Let_def)

lemma drawOptions_not_Thrown: "drawOptions env props \<noteq> Inl (Thrown e)"
  using getFormattedThresholds_not_Thrown [of env props e]
  by (auto simp add: drawOptions_def Let_def split: sum.splits)

lemma ex_drawOptions: "\<exists>options. drawOptions ex_gauge_env ex_props = Inr options"
  by (simp add: drawOptions_def Let_def getFormattedThresholds_def ex_props_def split: sum.splits)

text \<open>
  C5. An exception thrown by the charting call in \<open>draw\<close> is caught, logged with
  \<open>console.log\<close> and swallowed: when the options have been built and the charting call
  throws \<open>err\<close>, \<open>draw\<close> returns normally, with the line \<open>Gauge rendering error\<close>,
  \<open>err\<close>, the options and the value added to the console; and no exception of the
  charting call ever leaves \<open>draw\<close>.
\<close>

theorem draw_swallows_plot_exception:
  "draw env props w \<noteq> Inl (Thrown e) \<and>
   (drawOptions env props = Inr options \<and>
    plot env (canvasElement w)
      [\<lparr>ps_data = [(Fin 0, dv_numeric (p_value props))], ps_label = dv_title (p_value props)\<rparr>]
      options = Inl err \<longrightarrow>
    draw env props w =
      Inr (w\<lparr>console := console w @ [(''Gauge rendering error'', err, options, p_value props)]\<rparr>))"
  using drawOptions_not_Thrown [of env props e]
  by (auto simp add: draw_def Let_def split: sum.splits)

theorem draw_swallows_plot_exception_witness:
  "\<exists>options. drawOptions ex_gauge_env ex_props = Inr options \<and>
     plot ex_gauge_env (canvasElement ex_world)
       [\<lparr>ps_data = [(Fin 0, dv_numeric (p_value ex_props))],
         ps_label = dv_title (p_value ex_props)\<rparr>] options = Inl ''cannot plot'' \<and>
     draw ex_gauge_env ex_props ex_world =
       Inr \<lparr>canvasElement = (),
            console = [(''Gauge rendering error'', ''cannot plot'', options, ex_value)]\<rparr>"
proof -
  obtain options where o: "drawOptions ex_gauge_env ex_props = Inr options"
    using ex_drawOptions by blast
  have p: "plot ex_gauge_env (canvasElement ex_world)
       [\<lparr>ps_data = [(Fin 0, dv_numeric (p_value ex_props))],
         ps_label = dv_title (p_value ex_props)\<rparr>] options = Inl ''cannot plot''"
    by (simp add: ex_gauge_env_def)
  from draw_swallows_plot_exception
    [where env = ex_gauge_env and props = ex_props and w = ex_world and options = options
      and err = "''cannot plot''"] o p
  have "draw ex_gauge_env ex_props ex_world =
      Inr (ex_world\<lparr>console := console ex_world @
        [(''Gauge rendering error'', ''cannot plot'', options, p_value ex_props)]\<rparr>)"
    by blast
  then have "draw ex_gauge_env ex_props ex_world =
       Inr \<lparr>canvasElement = (),
            console = [(''Gauge rendering error'', ''cannot plot'', options, ex_value)]\<rparr>"
    by (simp add: ex_world_def ex_props_def)
  with o p show ?thesis by blast
qed

text \<open>
  C8. \<open>getFormattedThresholds\<close> needs a non-empty threshold list: it throws a
  \<open>TypeError\<close> exactly when the list is empty. The scale of \<open>defaultProps\<close> has no
  thresholds, so with it \<open>getFormattedThresholds\<close> throws, and since the call is made
  while the options are built, before the \<open>try\<close>, the exception leaves \<open>draw\<close>.
\<close>

theorem getFormattedThresholds_empty_throws:
  "(getFormattedThresholds env props = Inl TypeError) = (sc_thresholds (p_scale props) = []) \<and>
   sc_thresholds (dp_scale defaultProps) = [] \<and>
   (p_scale props = dp_scale defaultProps \<longrightarrow>
      getFormattedThresholds env props = Inl TypeError \<and> draw env props w = Inl TypeError)"
  by (auto simp add: getFormattedThresholds_def draw_def drawOptions_def Let_def defaultProps_def)

theorem getFormattedThresholds_empty_throws_witness:
  "p_scale ex_default_props = dp_scale defaultProps \<and>
   getFormattedThresholds ex_gauge_env ex_default_props = Inl TypeError \<and>
   draw ex_gauge_env ex_default_props ex_world = Inl TypeError"
proof -
  have d: "p_scale ex_default_props = dp_scale defaultProps"
    by (simp add: ex_default_props_def)
  from getFormattedThresholds_empty_throws
    [where env = ex_gauge_env and props = ex_default_props and w = ex_world] d
  show ?thesis by blast
qed

section \<open>Properties of the raw InfluxQL editor\<close>

text \<open>
  C10. Both handlers of the editor hand \<open>onChange\<close> the query they were given with only
  their own fields replaced, and then run the query: the select replaces
  \<open>resultFormat\<close> and leaves \<open>query\<close>, \<open>alias\<close> and every other field as they were;
  the blur handler replaces \<open>query\<close> and \<open>alias\<close> by the edited texts and leaves
  \<open>resultFormat\<close> and every other field as they were.
\<close>

theorem editor_preserves_other_fields:
  "selectOnChange query e_value = [onChange (query\<lparr>q_resultFormat := e_value\<rparr>), onRunQuery] \<and>
   q_query (query\<lparr>q_resultFormat := e_value\<rparr>) = q_query query \<and>
   q_alias (query\<lparr>q_resultFormat := e_value\<rparr>) = q_alias query \<and>
   InfluxQuery.more (query\<lparr>q_resultFormat := e_value\<rparr>) = InfluxQuery.more query \<and>
   applyDelayedChangesAndRunQuery query currentQuery currentAlias =
     [onChange (query\<lparr>q_query := currentQuery, q_alias := currentAlias\<rparr>), onRunQuery] \<and>
   q_resultFormat (query\<lparr>q_query := currentQuery, q_alias := currentAlias\<rparr>) =
     q_resultFormat query \<and>
   InfluxQuery.more (query\<lparr>q_query := currentQuery, q_alias := currentAlias\<rparr>) =
     InfluxQuery.more query"
  by (simp add: selectOnChange_def applyDelayedChangesAndRunQuery_def)

theorem editor_preserves_other_fields_witness:
  "selectOnChange ex_query (Some table) =
     [onChange \<lparr>q_query = Some ''SELECT 1'', q_alias = None, q_resultFormat = Some table\<rparr>,
      onRunQuery] \<and>
   applyDelayedChangesAndRunQuery ex_query (Some ''SELECT 2'') (Some ''a'') =
     [onChange \<lparr>q_query = Some ''SELECT 2'', q_alias = Some ''a'',
        q_resultFormat = Some time_series\<rparr>, onRunQuery]"
  using editor_preserves_other_fields
    [where query = ex_query and e_value = "Some table" and currentQuery = "Some ''SELECT 2''"
      and currentAlias = "Some ''a''"]
  by (simp add: ex_query_def)

end
